theory Spec2Isabelle
  imports Main "HOL-Library.Word"
begin

section \<open>The C++ type double: IEEE-754 binary64\<close>

text \<open>
  A \<open>double\<close> is its bit pattern: one sign bit, an 11-bit biased exponent and a 52-bit
  fraction. Exponent field 2047 is an infinity (fraction 0) or a NaN (fraction not 0);
  exponent field 0 is a zero or a subnormal number. Every value of the type is a bit
  pattern the hardware can hold.

  The arithmetic below is the round-to-nearest, ties-to-even arithmetic of the basic
  operations \<open>+ - * /\<close>, \<open>std::abs\<close>, unary minus and \<open><\<close>. An operation that
  produces a NaN produces the quiet NaN \<open>d_nan\<close>; which NaN the hardware produces is
  not fixed by the standard, and no statement below depends on more than \<open>is_nan\<close>.
  Every operation of the source rounds once, on its own: the compiler is taken not to
  contract \<open>a * b + c * d\<close> into a fused multiply-add.
\<close>

datatype double = Double (dsign: bool) (dexp: "11 word") (dfrac: "52 word")

definition is_nan :: "double \<Rightarrow> bool" where
  "is_nan x = (dexp x = 2047 \<and> dfrac x \<noteq> 0)"

definition is_inf :: "double \<Rightarrow> bool" where
  "is_inf x = (dexp x = 2047 \<and> dfrac x = 0)"

definition is_zero :: "double \<Rightarrow> bool" where
  "is_zero x = (dexp x = 0 \<and> dfrac x = 0)"

definition d_nan :: double where
  "d_nan = Double False 2047 2251799813685248"

definition d_inf :: "bool \<Rightarrow> double" where
  "d_inf s = Double s 2047 0"

definition d_zero :: "bool \<Rightarrow> double" where
  "d_zero s = Double s 0 0"

text \<open>
  A finite double is \<open>(-1)^dsign * mant * 2^qexp\<close>: the integer significand and the
  exponent of its last bit.
\<close>

definition mant :: "double \<Rightarrow> nat" where
  "mant x = (if dexp x = 0 then unat (dfrac x) else 4503599627370496 + unat (dfrac x))"

definition qexp :: "double \<Rightarrow> int" where
  "qexp x = (if dexp x = 0 then - 1074 else int (unat (dexp x)) - 1075)"

definition signed_mant :: "double \<Rightarrow> int" where
  "signed_mant x = (if dsign x then - int (mant x) else int (mant x))"

subsection \<open>Rounding an exact quotient to the nearest double\<close>

fun bitlen :: "nat \<Rightarrow> nat" where
  "bitlen n = (if n = 0 then 0 else Suc (bitlen (n div 2)))"

declare bitlen.simps [simp del]

text \<open>\<open>round_half_even num den\<close> is the integer nearest to \<open>num / den\<close>, ties to even.\<close>

definition round_half_even :: "nat \<Rightarrow> nat \<Rightarrow> nat" where
  "round_half_even num den =
     (if 2 * (num mod den) < den then num div den
      else if den < 2 * (num mod den) then num div den + 1
      else if even (num div den) then num div den else num div den + 1)"

text \<open>
  \<open>ilog2_ratio N D\<close> is the binary exponent of \<open>N / D\<close>, the \<open>k\<close> with
  \<open>2^k \<le> N / D < 2^(k + 1)\<close>, for positive \<open>N\<close> and \<open>D\<close>: the difference of the bit
  lengths, or one less.
\<close>

definition ilog2_adjust :: "nat \<Rightarrow> nat \<Rightarrow> int \<Rightarrow> int" where
  "ilog2_adjust N D k0 =
     (if (if 0 \<le> k0 then D * 2 ^ nat k0 \<le> N else D \<le> N * 2 ^ nat (- k0))
      then k0 else k0 - 1)"

definition ilog2_ratio :: "nat \<Rightarrow> nat \<Rightarrow> int" where
  "ilog2_ratio N D = ilog2_adjust N D (int (bitlen N) - int (bitlen D))"

text \<open>
  \<open>encode s bits\<close> reads the 63 magnitude bits: exponent field above the 52 fraction
  bits. A significand that rounds up to \<open>2^53\<close> carries into the exponent field, and an
  exponent field of 2047 or more is an overflow to infinity.
\<close>

definition encode :: "bool \<Rightarrow> nat \<Rightarrow> double" where
  "encode s bits =
     (if 9218868437227405312 \<le> bits then d_inf s
      else Double s (of_nat (bits div 4503599627370496)) (of_nat (bits mod 4503599627370496)))"

text \<open>\<open>round_at s N D qe\<close> rounds \<open>N / D\<close> to a multiple of \<open>2^qe\<close>.\<close>

definition round_at :: "bool \<Rightarrow> nat \<Rightarrow> nat \<Rightarrow> int \<Rightarrow> double" where
  "round_at s N D qe =
     encode s (nat (qe + 1074) * 4503599627370496 +
       (if 0 \<le> qe then round_half_even N (D * 2 ^ nat qe)
        else round_half_even (N * 2 ^ nat (- qe)) D))"

text \<open>
  The last bit of the result has exponent \<open>k - 52\<close>, and never less than \<open>-1074\<close>, the
  last bit of the subnormal numbers.
\<close>

definition round_ratio :: "bool \<Rightarrow> nat \<Rightarrow> nat \<Rightarrow> double" where
  "round_ratio s N D = round_at s N D (max (ilog2_ratio N D - 52) (- 1074))"

text \<open>\<open>round_to_double s n d e\<close> is the double nearest to \<open>(-1)^s * (n / d) * 2^e\<close>.\<close>

definition round_to_double :: "bool \<Rightarrow> nat \<Rightarrow> nat \<Rightarrow> int \<Rightarrow> double" where
  "round_to_double s n d e =
     (if 0 \<le> e then round_ratio s (n * 2 ^ nat e) d
      else round_ratio s n (d * 2 ^ nat (- e)))"

subsection \<open>The basic operations\<close>

definition fneg :: "double \<Rightarrow> double" where
  "fneg x = Double (\<not> dsign x) (dexp x) (dfrac x)"

definition fabs :: "double \<Rightarrow> double" where
  "fabs x = Double False (dexp x) (dfrac x)"

text \<open>
  Adding a zero to a number other than zero gives that number. A sum of two zeros is
  \<open>+0\<close>, except that \<open>-0 + -0\<close> is \<open>-0\<close>. An exact sum of zero of two numbers other than
  zero is \<open>+0\<close>.
\<close>

definition round_int :: "int \<Rightarrow> int \<Rightarrow> double" where
  "round_int v e =
     (if v = 0 then d_zero False
      else round_to_double (v < 0) (nat \<bar>v\<bar>) 1 e)"

definition fadd_finite :: "double \<Rightarrow> double \<Rightarrow> int \<Rightarrow> double" where
  "fadd_finite x y e =
     round_int (signed_mant x * 2 ^ nat (qexp x - e) + signed_mant y * 2 ^ nat (qexp y - e)) e"

definition fadd :: "double \<Rightarrow> double \<Rightarrow> double" where
  "fadd x y =
     (if is_nan x \<or> is_nan y then d_nan
      else if is_inf x then (if is_inf y \<and> dsign x \<noteq> dsign y then d_nan else x)
      else if is_inf y then y
      else if is_zero x then (if is_zero y then d_zero (dsign x \<and> dsign y) else y)
      else if is_zero y then x
      else fadd_finite x y (min (qexp x) (qexp y)))"

definition fsub :: "double \<Rightarrow> double \<Rightarrow> double" where
  "fsub x y = fadd x (fneg y)"

definition fmul :: "double \<Rightarrow> double \<Rightarrow> double" where
  "fmul x y =
     (if is_nan x \<or> is_nan y then d_nan
      else if is_inf x then (if is_zero y then d_nan else d_inf (dsign x \<noteq> dsign y))
      else if is_inf y then (if is_zero x then d_nan else d_inf (dsign x \<noteq> dsign y))
      else if is_zero x \<or> is_zero y then d_zero (dsign x \<noteq> dsign y)
      else round_to_double (dsign x \<noteq> dsign y) (mant x * mant y) 1 (qexp x + qexp y))"

definition fdiv :: "double \<Rightarrow> double \<Rightarrow> double" where
  "fdiv x y =
     (if is_nan x \<or> is_nan y then d_nan
      else if is_inf x then (if is_inf y then d_nan else d_inf (dsign x \<noteq> dsign y))
      else if is_inf y then d_zero (dsign x \<noteq> dsign y)
      else if is_zero y then (if is_zero x then d_nan else d_inf (dsign x \<noteq> dsign y))
      else if is_zero x then d_zero (dsign x \<noteq> dsign y)
      else round_to_double (dsign x \<noteq> dsign y) (mant x) (mant y) (qexp x - qexp y))"

text \<open>
  Ordered comparison: false when an operand is a NaN; otherwise the order of the
  magnitude bits, signed, so that \<open>-0\<close> and \<open>+0\<close> compare equal.
\<close>

definition fkey :: "double \<Rightarrow> int" where
  "fkey x =
     (if dsign x then - (int (unat (dexp x)) * 4503599627370496 + int (unat (dfrac x)))
      else int (unat (dexp x)) * 4503599627370496 + int (unat (dfrac x)))"

definition flt :: "double \<Rightarrow> double \<Rightarrow> bool" where
  "flt x y = (\<not> is_nan x \<and> \<not> is_nan y \<and> fkey x < fkey y)"

subsection \<open>Literals of the source\<close>

definition zero_d :: double where "zero_d = Double False 0 0"
definition one_d :: double where "one_d = Double False 1023 0"
definition two_d :: double where "two_d = Double False 1024 0"
definition ten_d :: double where "ten_d = Double False 1026 1125899906842624"
definition half_d :: double where "half_d = Double False 1022 0"
definition minus_one_d :: double where "minus_one_d = Double True 1023 0"

text \<open>\<open>std::numeric_limits<double>::epsilon()\<close>, that is \<open>2^-52\<close>.\<close>

definition epsilon_d :: double where "epsilon_d = Double False 971 0"

text \<open>Further values, used as inputs and results below: 3.0, 4.0 and 6.0, and the
  doubles nearest to 0.1, 0.2, 0.3 (from above) and 1/3.\<close>

definition three_d :: double where "three_d = Double False 1024 2251799813685248"
definition four_d :: double where "four_d = Double False 1025 0"
definition six_d :: double where "six_d = Double False 1025 2251799813685248"
definition tenth_d :: double where "tenth_d = Double False 1019 2702159776422298"
definition fifth_d :: double where "fifth_d = Double False 1020 2702159776422298"
definition three_tenths_up_d :: double where "three_tenths_up_d = Double False 1021 900719925474100"
definition third_d :: double where "third_d = Double False 1021 1501199875790165"


section \<open>DualNumber (include/algodiff/dual_number.hpp)\<close>

text \<open>The class has the two private members \<open>m_primal\<close> and \<open>m_dual\<close>, read and written
  through \<open>primal()\<close> and \<open>dual()\<close>.\<close>

record DualNumber =
  primal :: double
  dual :: double

text \<open>
  The compound assignments are member functions that write \<open>*this\<close> and read their
  argument through a reference, and \<open>operator==\<close> compares the two addresses. The
  objects therefore live in a store, and an operator gets the addresses of \<open>*this\<close>
  and of \<open>other\<close>, which may be the same address.
\<close>

type_synonym addr = nat
type_synonym store = "addr \<Rightarrow> DualNumber"

definition set_primal :: "addr \<Rightarrow> double \<Rightarrow> store \<Rightarrow> store" where
  "set_primal p v s = s(p := (s p)\<lparr>primal := v\<rparr>)"

definition set_dual :: "addr \<Rightarrow> double \<Rightarrow> store \<Rightarrow> store" where
  "set_dual p v s = s(p := (s p)\<lparr>dual := v\<rparr>)"

text \<open>\<open>operator==\<close> and \<open>operator!=\<close> (lines 122 to 142).\<close>

definition op_eq :: "addr \<Rightarrow> addr \<Rightarrow> store \<Rightarrow> bool" where
  "op_eq this other s =
     (this = other \<or>
      (flt (fabs (fsub (primal (s this)) (primal (s other)))) epsilon_d \<and>
       flt (fabs (fsub (dual (s this)) (dual (s other)))) epsilon_d))"

definition op_ne :: "addr \<Rightarrow> addr \<Rightarrow> store \<Rightarrow> bool" where
  "op_ne this other s = (\<not> op_eq this other s)"

text \<open>
  \<open>operator*=(const DualNumber &other)\<close> (lines 206 to 213): two locals copy the
  components of \<open>*this\<close>, then \<open>primal()\<close> is written, then \<open>dual()\<close>; each statement
  reads \<open>other\<close> from the store as it is at that moment.
\<close>

definition mul_assign :: "addr \<Rightarrow> addr \<Rightarrow> store \<Rightarrow> store" where
  "mul_assign this other s =
     (let primal_comp = primal (s this);
          dual_comp = dual (s this);
          s1 = set_primal this (fmul primal_comp (primal (s other))) s;
          s2 = set_dual this
                 (fadd (fmul primal_comp (dual (s1 other))) (fmul dual_comp (primal (s1 other)))) s1
      in s2)"

text \<open>\<open>operator/=(const DualNumber &other)\<close> (lines 234 to 242).\<close>

definition div_assign :: "addr \<Rightarrow> addr \<Rightarrow> store \<Rightarrow> store" where
  "div_assign this other s =
     (let primal_comp = primal (s this);
          dual_comp = dual (s this);
          s1 = set_primal this (fdiv primal_comp (primal (s other))) s;
          s2 = set_dual this
                 (fdiv (fsub (fmul dual_comp (primal (s1 other))) (fmul primal_comp (dual (s1 other))))
                       (fmul (primal (s1 other)) (primal (s1 other)))) s1
      in s2)"

text \<open>
  The binary operators take \<open>left\<close> by value and \<open>right\<close> by reference (lines 373 to 377
  and 412 to 416): \<open>left\<close> is a fresh object, here at address 0, and \<open>right\<close> is some
  other object, here at address 1. They run the compound assignment on \<open>left\<close> and
  return it.
\<close>

definition call_frame :: "DualNumber \<Rightarrow> DualNumber \<Rightarrow> store" where
  "call_frame left right = (\<lambda>a. if a = 0 then left else right)"

definition op_times :: "DualNumber \<Rightarrow> DualNumber \<Rightarrow> DualNumber" where
  "op_times left right = mul_assign 0 1 (call_frame left right) 0"

definition op_divide :: "DualNumber \<Rightarrow> DualNumber \<Rightarrow> DualNumber" where
  "op_divide left right = div_assign 0 1 (call_frame left right) 0"

text \<open>
  The scalar forms take the scalar by value: \<open>operator*=(double)\<close> and
  \<open>operator/=(double)\<close> (lines 221 to 226 and 250 to 255), behind
  \<open>operator*(double, DualNumber)\<close> and \<open>operator/(DualNumber, double)\<close>.
\<close>

definition mul_assign_scalar :: "DualNumber \<Rightarrow> double \<Rightarrow> DualNumber" where
  "mul_assign_scalar num scalar =
     (let n1 = num\<lparr>primal := fmul scalar (primal num)\<rparr>
      in n1\<lparr>dual := fmul scalar (dual n1)\<rparr>)"

definition div_assign_scalar :: "DualNumber \<Rightarrow> double \<Rightarrow> DualNumber" where
  "div_assign_scalar num scalar =
     (let n1 = num\<lparr>primal := fdiv (primal num) scalar\<rparr>
      in n1\<lparr>dual := fdiv (dual n1) scalar\<rparr>)"

definition scalar_times :: "double \<Rightarrow> DualNumber \<Rightarrow> DualNumber" where
  "scalar_times scalar num = mul_assign_scalar num scalar"

definition divide_scalar :: "DualNumber \<Rightarrow> double \<Rightarrow> DualNumber" where
  "divide_scalar num scalar = div_assign_scalar num scalar"

text \<open>\<open>abs\<close> (src/dual_number_ops.cpp, lines 13 to 17). The dual component is
  \<open>(num.dual() * num.primal()) / std::abs(num.primal())\<close>, left to right.\<close>

definition abs_dual :: "DualNumber \<Rightarrow> DualNumber" where
  "abs_dual num =
     \<lparr>primal = fabs (primal num),
      dual = fdiv (fmul (dual num) (primal num)) (fabs (primal num))\<rparr>"

text \<open>
  The equality of the specification: both components differ by less than machine
  epsilon. It is written from the specification's words, to be compared with
  \<open>op_eq\<close>.
\<close>

definition spec_approx_equal :: "DualNumber \<Rightarrow> DualNumber \<Rightarrow> bool" where
  "spec_approx_equal a b =
     (flt (fabs (fsub (primal a) (primal b))) epsilon_d \<and>
      flt (fabs (fsub (dual a) (dual b))) epsilon_d)"

definition is_finite :: "double \<Rightarrow> bool" where
  "is_finite x = (dexp x \<noteq> 2047)"

definition nan_or_inf :: "double \<Rightarrow> bool" where
  "nan_or_inf x = (is_nan x \<or> is_inf x)"

text \<open>Stores for the examples: every object is \<open>(2.0, 1.0)\<close>, or \<open>(NaN, 0.0)\<close>.\<close>

definition store_2_1 :: store where
  "store_2_1 = (\<lambda>a. \<lparr>primal = two_d, dual = one_d\<rparr>)"

definition store_nan :: store where
  "store_nan = (\<lambda>a. \<lparr>primal = d_nan, dual = zero_d\<rparr>)"

section \<open>Elementary functions (src/dual_number_ops.cpp)\<close>

text \<open>
  The functions of \<open><cmath>\<close> other than \<open>std::abs\<close> belong to the C library, which
  fixes neither their rounding nor, outside Annex F, their values at the edges of their
  domains. They are a parameter: a record of functions on doubles.
\<close>

record libm =
  c_pow :: "double \<Rightarrow> double \<Rightarrow> double"
  c_sqrt :: "double \<Rightarrow> double"
  c_exp :: "double \<Rightarrow> double"
  c_log :: "double \<Rightarrow> double"
  c_sin :: "double \<Rightarrow> double"
  c_cos :: "double \<Rightarrow> double"
  c_tan :: "double \<Rightarrow> double"
  c_asin :: "double \<Rightarrow> double"
  c_acos :: "double \<Rightarrow> double"
  c_atan :: "double \<Rightarrow> double"
  c_sinh :: "double \<Rightarrow> double"
  c_cosh :: "double \<Rightarrow> double"
  c_tanh :: "double \<Rightarrow> double"
  c_asinh :: "double \<Rightarrow> double"
  c_acosh :: "double \<Rightarrow> double"
  c_atanh :: "double \<Rightarrow> double"

definition pow_scalar :: "libm \<Rightarrow> DualNumber \<Rightarrow> double \<Rightarrow> DualNumber" where
  "pow_scalar L num exponent =
     \<lparr>primal = c_pow L (primal num) exponent,
      dual = fmul (fmul exponent (dual num)) (c_pow L (primal num) (fsub exponent one_d))\<rparr>"

definition inverse_dual :: "libm \<Rightarrow> DualNumber \<Rightarrow> DualNumber" where
  "inverse_dual L num = pow_scalar L num minus_one_d"

definition pow_dual :: "libm \<Rightarrow> DualNumber \<Rightarrow> DualNumber \<Rightarrow> DualNumber" where
  "pow_dual L num exponent =
     \<lparr>primal = c_pow L (primal num) (primal exponent),
      dual = fmul (c_pow L (primal num) (primal exponent))
               (fadd (fmul (dual exponent) (c_log L (primal num)))
                     (fdiv (fmul (dual num) (primal exponent)) (primal num)))\<rparr>"

definition sqrt_dual :: "libm \<Rightarrow> DualNumber \<Rightarrow> DualNumber" where
  "sqrt_dual L num = pow_scalar L num half_d"

definition exp_dual :: "libm \<Rightarrow> DualNumber \<Rightarrow> DualNumber" where
  "exp_dual L num =
     \<lparr>primal = c_exp L (primal num), dual = fmul (dual num) (c_exp L (primal num))\<rparr>"

definition exp2_dual :: "libm \<Rightarrow> DualNumber \<Rightarrow> DualNumber" where
  "exp2_dual L num = exp_dual L (scalar_times (c_log L two_d) num)"

definition log_dual :: "libm \<Rightarrow> DualNumber \<Rightarrow> DualNumber" where
  "log_dual L num =
     \<lparr>primal = c_log L (primal num), dual = fdiv (dual num) (primal num)\<rparr>"

definition log2_dual :: "libm \<Rightarrow> DualNumber \<Rightarrow> DualNumber" where
  "log2_dual L num = divide_scalar (log_dual L num) (c_log L two_d)"

definition log10_dual :: "libm \<Rightarrow> DualNumber \<Rightarrow> DualNumber" where
  "log10_dual L num = divide_scalar (log_dual L num) (c_log L ten_d)"

definition log_base :: "libm \<Rightarrow> DualNumber \<Rightarrow> double \<Rightarrow> DualNumber" where
  "log_base L num base = divide_scalar (log_dual L num) (c_log L base)"

definition sin_dual :: "libm \<Rightarrow> DualNumber \<Rightarrow> DualNumber" where
  "sin_dual L num =
     \<lparr>primal = c_sin L (primal num), dual = fmul (c_cos L (primal num)) (dual num)\<rparr>"

definition cos_dual :: "libm \<Rightarrow> DualNumber \<Rightarrow> DualNumber" where
  "cos_dual L num =
     \<lparr>primal = c_cos L (primal num), dual = fmul (fneg (c_sin L (primal num))) (dual num)\<rparr>"

definition tan_dual :: "libm \<Rightarrow> DualNumber \<Rightarrow> DualNumber" where
  "tan_dual L num =
     (let cos_primal = c_cos L (primal num)
      in \<lparr>primal = c_tan L (primal num), dual = fdiv (dual num) (fmul cos_primal cos_primal)\<rparr>)"

definition asin_dual :: "libm \<Rightarrow> DualNumber \<Rightarrow> DualNumber" where
  "asin_dual L num =
     \<lparr>primal = c_asin L (primal num),
      dual = fdiv (dual num) (c_sqrt L (fsub one_d (fmul (primal num) (primal num))))\<rparr>"

definition acos_dual :: "libm \<Rightarrow> DualNumber \<Rightarrow> DualNumber" where
  "acos_dual L num =
     \<lparr>primal = c_acos L (primal num),
      dual = fdiv (fneg (dual num)) (c_sqrt L (fsub one_d (fmul (primal num) (primal num))))\<rparr>"

definition atan_dual :: "libm \<Rightarrow> DualNumber \<Rightarrow> DualNumber" where
  "atan_dual L num =
     \<lparr>primal = c_atan L (primal num),
      dual = fdiv (dual num) (fadd one_d (fmul (primal num) (primal num)))\<rparr>"

definition sinh_dual :: "libm \<Rightarrow> DualNumber \<Rightarrow> DualNumber" where
  "sinh_dual L num =
     \<lparr>primal = c_sinh L (primal num), dual = fmul (c_cosh L (primal num)) (dual num)\<rparr>"

definition cosh_dual :: "libm \<Rightarrow> DualNumber \<Rightarrow> DualNumber" where
  "cosh_dual L num =
     \<lparr>primal = c_cosh L (primal num), dual = fmul (c_sinh L (primal num)) (dual num)\<rparr>"

definition tanh_dual :: "libm \<Rightarrow> DualNumber \<Rightarrow> DualNumber" where
  "tanh_dual L num =
     (let cosh_primal = c_cosh L (primal num)
      in \<lparr>primal = c_tanh L (primal num), dual = fdiv (dual num) (fmul cosh_primal cosh_primal)\<rparr>)"

definition asinh_dual :: "libm \<Rightarrow> DualNumber \<Rightarrow> DualNumber" where
  "asinh_dual L num =
     \<lparr>primal = c_asinh L (primal num),
      dual = fdiv (dual num) (c_sqrt L (fadd (fmul (primal num) (primal num)) one_d))\<rparr>"

definition acosh_dual :: "libm \<Rightarrow> DualNumber \<Rightarrow> DualNumber" where
  "acosh_dual L num =
     \<lparr>primal = c_acosh L (primal num),
      dual = fdiv (dual num) (c_sqrt L (fsub (fmul (primal num) (primal num)) one_d))\<rparr>"

definition atanh_dual :: "libm \<Rightarrow> DualNumber \<Rightarrow> DualNumber" where
  "atanh_dual L num =
     \<lparr>primal = c_atanh L (primal num),
      dual = fdiv (dual num) (fsub one_d (fmul (primal num) (primal num)))\<rparr>"

section \<open>The seeding and evaluation engine (include/algodiff/forward_mode.hpp)\<close>

text \<open>
  The user function \<open>f\<close> is pure: a HOL function. So that its invocations can be
  counted, every call of \<open>f\<close> goes through \<open>invoke\<close>, which appends the argument of the
  call to a log of calls; every entry point takes the log so far and returns the log
  after it.
\<close>

definition invoke :: "('a \<Rightarrow> 'b) \<Rightarrow> 'a \<Rightarrow> 'a list \<Rightarrow> 'b \<times> 'a list" where
  "invoke f x log = (f x, log @ [x])"

subsection \<open>Scalar functions (lines 42 to 59)\<close>

definition evaluate ::
  "(DualNumber \<Rightarrow> DualNumber) \<Rightarrow> double \<Rightarrow> DualNumber list \<Rightarrow> DualNumber \<times> DualNumber list"
where
  "evaluate f u log = invoke f \<lparr>primal = u, dual = one_d\<rparr> log"


subsection \<open>Functions of a std::vector (lines 73 to 111)\<close>

text \<open>The \<open>std::transform\<close> that lifts the input: every entry with dual component 0.0.\<close>

definition lift_input :: "double list \<Rightarrow> DualNumber list" where
  "lift_input u = map (\<lambda>x. \<lparr>primal = x, dual = zero_d\<rparr>) u"

text \<open>
  The \<open>std::for_each\<close> visits the elements of \<open>dual_numbers\<close> in order, by reference:
  the lambda writes the element in place and passes the whole vector to \<open>f\<close>. The
  state of the loop is the vector, the evaluations so far and the log.
\<close>

function evaluate_vec_loop ::
  "(DualNumber list \<Rightarrow> DualNumber) \<Rightarrow> nat \<Rightarrow> DualNumber list \<Rightarrow> DualNumber list \<Rightarrow>
   DualNumber list list \<Rightarrow> DualNumber list \<times> DualNumber list \<times> DualNumber list list"
where
  "evaluate_vec_loop f i dual_numbers evaluations log =
     (if i < length dual_numbers then
        (let seeded = dual_numbers[i := (dual_numbers ! i)\<lparr>dual := one_d\<rparr>]
         in case invoke f seeded log of
              (r, log') \<Rightarrow>
                evaluate_vec_loop f (Suc i) (seeded[i := (seeded ! i)\<lparr>dual := zero_d\<rparr>])
                  (evaluations @ [r]) log')
      else (dual_numbers, evaluations, log))"
  by pat_completeness auto
termination
  by (relation "measure (\<lambda>(f, i, dual_numbers, evaluations, log). length dual_numbers - i)") auto

declare evaluate_vec_loop.simps [simp del]

definition evaluate_vec ::
  "(DualNumber list \<Rightarrow> DualNumber) \<Rightarrow> double list \<Rightarrow> DualNumber list list \<Rightarrow>
   DualNumber list \<times> DualNumber list list"
where
  "evaluate_vec f u log =
     (case evaluate_vec_loop f 0 (lift_input u) [] log of
        (dual_numbers, evaluations, log') \<Rightarrow> (evaluations, log'))"

definition gradient_vec ::
  "(DualNumber list \<Rightarrow> DualNumber) \<Rightarrow> double list \<Rightarrow> DualNumber list list \<Rightarrow>
   double list \<times> DualNumber list list"
where
  "gradient_vec f u log =
     (case evaluate_vec f u log of (evaluations, log') \<Rightarrow> (map dual evaluations, log'))"

text \<open>\<open>jacobian\<close> of a \<open>std::vector\<close> of functions (lines 181 to 188): the
  \<open>std::transform\<close> appends one gradient per function.\<close>

fun jacobian_vec_loop ::
  "(DualNumber list \<Rightarrow> DualNumber) list \<Rightarrow> double list \<Rightarrow> double list list \<Rightarrow>
   DualNumber list list \<Rightarrow> double list list \<times> DualNumber list list"
where
  "jacobian_vec_loop [] u jac log = (jac, log)"
| "jacobian_vec_loop (func # fs) u jac log =
     (case gradient_vec func u log of (g, log') \<Rightarrow> jacobian_vec_loop fs u (jac @ [g]) log')"

definition jacobian_vec ::
  "(DualNumber list \<Rightarrow> DualNumber) list \<Rightarrow> double list \<Rightarrow> DualNumber list list \<Rightarrow>
   double list list \<times> DualNumber list list"
where
  "jacobian_vec fs u log = jacobian_vec_loop fs u [] log"

subsection \<open>Eigen vectors and matrices\<close>

text \<open>
  An Eigen vector is a list. \<open>operator[]\<close> and \<open>operator()\<close> on a vector, \<open>col(i)\<close> and
  \<open>row(i)\<close> on a matrix, and the assignment to a row check their index or size with
  \<open>eigen_assert\<close>, which aborts the process; where the assertions are compiled out the
  access is out of bounds instead. Either way the call does not return a result: a
  failed check is the error value here. Indexing a \<open>std::vector\<close> out of range is not
  checked, and is an error value too.

  The loop counters of the source are \<open>int\<close> and the sizes are Eigen's \<open>Index\<close>; the
  model counts in \<open>nat\<close>, which is the same for vectors of fewer than \<open>2^31\<close> entries.
  \<open>FunctionSize\<close> and \<open>InputSize\<close> are template parameters, taken not negative.
  Running out of memory is not modelled.
\<close>

datatype abort = IndexOutOfRange | SizeMismatch | VectorOutOfBounds

definition eigen_at :: "'a list \<Rightarrow> nat \<Rightarrow> abort + 'a" where
  "eigen_at v i = (if i < length v then Inr (v ! i) else Inl IndexOutOfRange)"

definition eigen_put :: "'a list \<Rightarrow> nat \<Rightarrow> 'a \<Rightarrow> abort + 'a list" where
  "eigen_put v i x = (if i < length v then Inr (v[i := x]) else Inl IndexOutOfRange)"

text \<open>\<open>v[i].dual() = d\<close>: the element is reached through the checked index.\<close>

definition eigen_put_dual :: "DualNumber list \<Rightarrow> nat \<Rightarrow> double \<Rightarrow> abort + DualNumber list" where
  "eigen_put_dual v i d =
     (case eigen_at v i of
        Inl e \<Rightarrow> Inl e
      | Inr num \<Rightarrow> Inr (v[i := num\<lparr>dual := d\<rparr>]))"

definition std_vector_at :: "'a list \<Rightarrow> nat \<Rightarrow> abort + 'a" where
  "std_vector_at v i = (if i < length v then Inr (v ! i) else Inl VectorOutOfBounds)"

text \<open>
  A matrix of doubles has its two dimensions and its coefficients, \<open>coeff jac j i\<close> in
  row \<open>j\<close> and column \<open>i\<close>. \<open>Eigen::MatrixXd jac(rows, cols)\<close> does not initialise its
  coefficients: \<open>mat_create\<close> takes what the storage holds as \<open>garbage\<close>.
\<close>

record matrix =
  nrows :: nat
  ncols :: nat
  coeff :: "nat \<Rightarrow> nat \<Rightarrow> double"

definition mat_create :: "nat \<Rightarrow> nat \<Rightarrow> (nat \<Rightarrow> nat \<Rightarrow> double) \<Rightarrow> matrix" where
  "mat_create r c garbage = \<lparr>nrows = r, ncols = c, coeff = garbage\<rparr>"

text \<open>\<open>jac.col(i)[j] = x\<close>\<close>

definition mat_put_col :: "matrix \<Rightarrow> nat \<Rightarrow> nat \<Rightarrow> double \<Rightarrow> abort + matrix" where
  "mat_put_col jac i j x =
     (if i < ncols jac then
        (if j < nrows jac then Inr (jac\<lparr>coeff := (coeff jac)(j := (coeff jac j)(i := x))\<rparr>)
         else Inl IndexOutOfRange)
      else Inl IndexOutOfRange)"

text \<open>\<open>jac.row(i) = v\<close>, for a vector \<open>v\<close>\<close>

definition mat_put_row :: "matrix \<Rightarrow> nat \<Rightarrow> double list \<Rightarrow> abort + matrix" where
  "mat_put_row jac i v =
     (if i < nrows jac then
        (if length v = ncols jac
         then Inr (jac\<lparr>coeff := (coeff jac)(i := (\<lambda>j. if j < length v then v ! j else coeff jac i j))\<rparr>)
         else Inl SizeMismatch)
      else Inl IndexOutOfRange)"

subsection \<open>Functions of an Eigen vector (lines 126 to 169)\<close>

text \<open>
  \<open>createVector\<close> gives a vector of the size of the input, of default-constructed
  DualNumbers \<open>(0.0, 0.0)\<close>; the \<open>std::transform\<close> over the raw data fills
  \<open>dual_numbers\<close> as in the \<open>std::vector\<close> overload.
\<close>

definition default_dual :: DualNumber where
  "default_dual = \<lparr>primal = zero_d, dual = zero_d\<rparr>"

function evaluate_eigen_loop ::
  "(DualNumber list \<Rightarrow> DualNumber) \<Rightarrow> nat \<Rightarrow> DualNumber list \<Rightarrow> DualNumber list \<Rightarrow>
   DualNumber list list \<Rightarrow> abort + (DualNumber list \<times> DualNumber list \<times> DualNumber list list)"
where
  "evaluate_eigen_loop f i dual_numbers evaluations log =
     (if i < length dual_numbers then
        (case eigen_put_dual dual_numbers i one_d of
           Inl e \<Rightarrow> Inl e
         | Inr seeded \<Rightarrow>
             (case invoke f seeded log of
                (r, log') \<Rightarrow>
                  (case eigen_put evaluations i r of
                     Inl e \<Rightarrow> Inl e
                   | Inr evaluations' \<Rightarrow>
                       (case eigen_put_dual seeded i zero_d of
                          Inl e \<Rightarrow> Inl e
                        | Inr unseeded \<Rightarrow>
                            evaluate_eigen_loop f (Suc i) unseeded evaluations' log'))))
      else Inr (dual_numbers, evaluations, log))"
  by pat_completeness auto
termination
  by (relation "measure (\<lambda>(f, i, dual_numbers, evaluations, log). length dual_numbers - i)")
     (auto simp: eigen_put_dual_def eigen_at_def split: if_splits)

declare evaluate_eigen_loop.simps [simp del]

definition evaluate_eigen ::
  "(DualNumber list \<Rightarrow> DualNumber) \<Rightarrow> double list \<Rightarrow> DualNumber list list \<Rightarrow>
   abort + (DualNumber list \<times> DualNumber list list)"
where
  "evaluate_eigen f u log =
     (case evaluate_eigen_loop f 0 (lift_input u) (replicate (length u) default_dual) log of
        Inl e \<Rightarrow> Inl e
      | Inr (dual_numbers, evaluations, log') \<Rightarrow> Inr (evaluations, log'))"

definition gradient_eigen ::
  "(DualNumber list \<Rightarrow> DualNumber) \<Rightarrow> double list \<Rightarrow> DualNumber list list \<Rightarrow>
   abort + (double list \<times> DualNumber list list)"
where
  "gradient_eigen f u log =
     (case evaluate_eigen f u log of
        Inl e \<Rightarrow> Inl e
      | Inr (evaluations, log') \<Rightarrow> Inr (map dual evaluations, log'))"

text \<open>
  \<open>jacobian\<close> of a \<open>std::vector\<close> of functions of an Eigen vector (lines 200 to 209):
  row \<open>i\<close> of an \<open>f.size()\<close> by \<open>u.size()\<close> matrix is assigned the gradient of \<open>f[i]\<close>.
\<close>

function jacobian_eigen_loop ::
  "(DualNumber list \<Rightarrow> DualNumber) list \<Rightarrow> double list \<Rightarrow> nat \<Rightarrow> matrix \<Rightarrow>
   DualNumber list list \<Rightarrow> abort + (matrix \<times> DualNumber list list)"
where
  "jacobian_eigen_loop fs u i jacobian log =
     (if i < nrows jacobian then
        (case std_vector_at fs i of
           Inl e \<Rightarrow> Inl e
         | Inr func \<Rightarrow>
             (case gradient_eigen func u log of
                Inl e \<Rightarrow> Inl e
              | Inr (g, log') \<Rightarrow>
                  (case mat_put_row jacobian i g of
                     Inl e \<Rightarrow> Inl e
                   | Inr jacobian' \<Rightarrow> jacobian_eigen_loop fs u (Suc i) jacobian' log')))
      else Inr (jacobian, log))"
  by pat_completeness auto
termination
  by (relation "measure (\<lambda>(fs, u, i, jacobian, log). nrows jacobian - i)")
     (auto simp: mat_put_row_def split: if_splits)

declare jacobian_eigen_loop.simps [simp del]

definition jacobian_eigen ::
  "(DualNumber list \<Rightarrow> DualNumber) list \<Rightarrow> double list \<Rightarrow> (nat \<Rightarrow> nat \<Rightarrow> double) \<Rightarrow>
   DualNumber list list \<Rightarrow> abort + (matrix \<times> DualNumber list list)"
where
  "jacobian_eigen fs u garbage log =
     jacobian_eigen_loop fs u 0 (mat_create (length fs) (length u) garbage) log"

subsection \<open>One vector-valued function (lines 223 to 275)\<close>

text \<open>
  Both overloads start with a vector of \<open>n\<close> default-constructed DualNumbers, where
  \<open>n\<close> is \<open>u.size()\<close> or \<open>InputSize\<close>, and assign \<open>DualNumber{u[i], 0.0}\<close> to entry \<open>i\<close>.
\<close>

function fill_dual_numbers ::
  "double list \<Rightarrow> nat \<Rightarrow> nat \<Rightarrow> DualNumber list \<Rightarrow> abort + DualNumber list"
where
  "fill_dual_numbers u n i dual_numbers =
     (if i < n then
        (case eigen_at u i of
           Inl e \<Rightarrow> Inl e
         | Inr x \<Rightarrow>
             (case eigen_put dual_numbers i \<lparr>primal = x, dual = zero_d\<rparr> of
                Inl e \<Rightarrow> Inl e
              | Inr dual_numbers' \<Rightarrow> fill_dual_numbers u n (Suc i) dual_numbers'))
      else Inr dual_numbers)"
  by pat_completeness auto
termination
  by (relation "measure (\<lambda>(u, n, i, dual_numbers). n - i)") auto

declare fill_dual_numbers.simps [simp del]

text \<open>The inner loop: \<open>jac.col(i)[j] = result[j].dual()\<close> for \<open>j\<close> below \<open>FunctionSize\<close>.\<close>

function harvest_column ::
  "nat \<Rightarrow> DualNumber list \<Rightarrow> nat \<Rightarrow> nat \<Rightarrow> matrix \<Rightarrow> abort + matrix"
where
  "harvest_column FunctionSize result i j jac =
     (if j < FunctionSize then
        (case eigen_at result j of
           Inl e \<Rightarrow> Inl e
         | Inr r \<Rightarrow>
             (case mat_put_col jac i j (dual r) of
                Inl e \<Rightarrow> Inl e
              | Inr jac' \<Rightarrow> harvest_column FunctionSize result i (Suc j) jac'))
      else Inr jac)"
  by pat_completeness auto
termination
  by (relation "measure (\<lambda>(FunctionSize, result, i, j, jac). FunctionSize - j)") auto

declare harvest_column.simps [simp del]

text \<open>
  The outer loop of both overloads. Its bound \<open>n\<close> is \<open>jac.cols()\<close> in the first and
  \<open>InputSize\<close> in the second; neither changes while the loop runs.
\<close>

function jacobian_loop ::
  "nat \<Rightarrow> (DualNumber list \<Rightarrow> DualNumber list) \<Rightarrow> nat \<Rightarrow> nat \<Rightarrow> DualNumber list \<Rightarrow> matrix \<Rightarrow>
   DualNumber list list \<Rightarrow> abort + (DualNumber list \<times> matrix \<times> DualNumber list list)"
where
  "jacobian_loop FunctionSize f n i dual_numbers jac log =
     (if i < n then
        (case eigen_put_dual dual_numbers i one_d of
           Inl e \<Rightarrow> Inl e
         | Inr seeded \<Rightarrow>
             (case invoke f seeded log of
                (result, log') \<Rightarrow>
                  (case harvest_column FunctionSize result i 0 jac of
                     Inl e \<Rightarrow> Inl e
                   | Inr jac' \<Rightarrow>
                       (case eigen_put_dual seeded i zero_d of
                          Inl e \<Rightarrow> Inl e
                        | Inr unseeded \<Rightarrow>
                            jacobian_loop FunctionSize f n (Suc i) unseeded jac' log'))))
      else Inr (dual_numbers, jac, log))"
  by pat_completeness auto
termination
  by (relation "measure (\<lambda>(FunctionSize, f, n, i, dual_numbers, jac, log). n - i)") auto

declare jacobian_loop.simps [simp del]

text \<open>\<open>jacobian<FunctionSize>(f, const Eigen::VectorXd &u)\<close> (lines 223 to 241)\<close>

definition jacobian_dynamic ::
  "nat \<Rightarrow> (DualNumber list \<Rightarrow> DualNumber list) \<Rightarrow> double list \<Rightarrow> (nat \<Rightarrow> nat \<Rightarrow> double) \<Rightarrow>
   DualNumber list list \<Rightarrow> abort + (matrix \<times> DualNumber list list)"
where
  "jacobian_dynamic FunctionSize f u garbage log =
     (case fill_dual_numbers u (length u) 0 (replicate (length u) default_dual) of
        Inl e \<Rightarrow> Inl e
      | Inr dual_numbers \<Rightarrow>
          (case jacobian_loop FunctionSize f (ncols (mat_create FunctionSize (length u) garbage)) 0
                  dual_numbers (mat_create FunctionSize (length u) garbage) log of
             Inl e \<Rightarrow> Inl e
           | Inr (dual_numbers', jac, log') \<Rightarrow> Inr (jac, log')))"

text \<open>
  \<open>jacobian<FunctionSize>(f, const Eigen::Vector<double, InputSize> &u)\<close> (lines 256 to
  275). The type of \<open>u\<close> fixes its length to \<open>InputSize\<close>.
\<close>

definition jacobian_fixed ::
  "nat \<Rightarrow> nat \<Rightarrow> (DualNumber list \<Rightarrow> DualNumber list) \<Rightarrow> double list \<Rightarrow>
   (nat \<Rightarrow> nat \<Rightarrow> double) \<Rightarrow> DualNumber list list \<Rightarrow> abort + (matrix \<times> DualNumber list list)"
where
  "jacobian_fixed FunctionSize InputSize f u garbage log =
     (case fill_dual_numbers u InputSize 0 (replicate InputSize default_dual) of
        Inl e \<Rightarrow> Inl e
      | Inr dual_numbers \<Rightarrow>
          (case jacobian_loop FunctionSize f InputSize 0
                  dual_numbers (mat_create FunctionSize InputSize garbage) log of
             Inl e \<Rightarrow> Inl e
           | Inr (dual_numbers', jac, log') \<Rightarrow> Inr (jac, log')))"

subsection \<open>The seeded inputs of the specification\<close>

text \<open>
  The input vector seeded at index \<open>i\<close>, in the specification's words: entry \<open>j\<close> is
  \<open>DualNumber(u[j], 1.0 if j == i else 0.0)\<close>.
\<close>

definition seeded_input :: "double list \<Rightarrow> nat \<Rightarrow> DualNumber list" where
  "seeded_input u i =
     map (\<lambda>j. \<lparr>primal = u ! j, dual = (if j = i then one_d else zero_d)\<rparr>) [0..<length u]"

text \<open>The log after seeded calls for the indices from \<open>i\<close> on.\<close>

definition seeded_calls :: "double list \<Rightarrow> nat \<Rightarrow> DualNumber list list" where
  "seeded_calls u i = map (seeded_input u) [i..<length u]"

definition returns :: "'e + 'a \<Rightarrow> bool" where
  "returns r = (case r of Inl e \<Rightarrow> False | Inr x \<Rightarrow> True)"

subsection \<open>The matrices the loops build\<close>

text \<open>
  \<open>rows_from fs u i jac\<close> is \<open>jac\<close> with the rows from \<open>i\<close> on holding the partial
  derivatives of the functions \<open>fs\<close>; \<open>column_from m result i j jac\<close> is \<open>jac\<close> with
  the entries of column \<open>i\<close> from row \<open>j\<close> on holding the dual components of \<open>result\<close>;
  \<open>columns_from m f u i jac\<close> is \<open>jac\<close> with the columns from \<open>i\<close> on holding the dual
  components of the seeded evaluations of \<open>f\<close>.
\<close>

definition rows_from ::
  "(DualNumber list \<Rightarrow> DualNumber) list \<Rightarrow> double list \<Rightarrow> nat \<Rightarrow> matrix \<Rightarrow> matrix" where
  "rows_from fs u i jac =
     jac\<lparr>coeff := (\<lambda>r c. if i \<le> r \<and> r < length fs \<and> c < length u
                          then dual ((fs ! r) (seeded_input u c)) else coeff jac r c)\<rparr>"

definition column_from :: "nat \<Rightarrow> DualNumber list \<Rightarrow> nat \<Rightarrow> nat \<Rightarrow> matrix \<Rightarrow> matrix" where
  "column_from m result i j jac =
     jac\<lparr>coeff := (\<lambda>r c. if c = i \<and> j \<le> r \<and> r < m then dual (result ! r) else coeff jac r c)\<rparr>"

definition columns_from ::
  "nat \<Rightarrow> (DualNumber list \<Rightarrow> DualNumber list) \<Rightarrow> double list \<Rightarrow> nat \<Rightarrow> matrix \<Rightarrow> matrix" where
  "columns_from m f u i jac =
     jac\<lparr>coeff := (\<lambda>r c. if i \<le> c \<and> c < length u \<and> r < m
                          then dual (f (seeded_input u c) ! r) else coeff jac r c)\<rparr>"

text \<open>Row \<open>i\<close> of a matrix, read as a list.\<close>

definition mat_row :: "matrix \<Rightarrow> nat \<Rightarrow> double list" where
  "mat_row jac i = map (coeff jac i) [0..<ncols jac]"

subsection \<open>Example functions and inputs\<close>

text \<open>\<open>f(x) = x\<^sub>0 * x\<^sub>1\<close> and the vector-valued \<open>f(x) = (x\<^sub>0 * x\<^sub>0, x\<^sub>0)\<close>.\<close>

definition product_fn :: "DualNumber list \<Rightarrow> DualNumber" where
  "product_fn v = op_times (v ! 0) (v ! 1)"

definition pair_fn :: "DualNumber list \<Rightarrow> DualNumber list" where
  "pair_fn v = [op_times (v ! 0) (v ! 0), v ! 0]"

definition zero_garbage :: "nat \<Rightarrow> nat \<Rightarrow> double" where
  "zero_garbage r c = zero_d"

section \<open>Functions written with the library\<close>

text \<open>
  The remaining by-value operators of \<open>dual_number.hpp\<close>: the constructor from a
  double (dual component 0.0), the unary minus (lines 329 to 332), and \<open>operator+\<close> and
  \<open>operator-\<close> (lines 272 to 276 and 317 to 321), which run \<open>operator+=\<close> and
  \<open>operator-=\<close> (lines 150 to 155 and 178 to 183) on their left operand, a copy.
\<close>

definition from_double :: "double \<Rightarrow> DualNumber" where
  "from_double x = \<lparr>primal = x, dual = zero_d\<rparr>"

definition op_neg :: "DualNumber \<Rightarrow> DualNumber" where
  "op_neg num = \<lparr>primal = fneg (primal num), dual = fneg (dual num)\<rparr>"

definition add_assign :: "addr \<Rightarrow> addr \<Rightarrow> store \<Rightarrow> store" where
  "add_assign this other s =
     (let s1 = set_primal this (fadd (primal (s this)) (primal (s other))) s;
          s2 = set_dual this (fadd (dual (s1 this)) (dual (s1 other))) s1
      in s2)"

definition sub_assign :: "addr \<Rightarrow> addr \<Rightarrow> store \<Rightarrow> store" where
  "sub_assign this other s =
     (let s1 = set_primal this (fsub (primal (s this)) (primal (s other))) s;
          s2 = set_dual this (fsub (dual (s1 this)) (dual (s1 other))) s1
      in s2)"

definition op_plus :: "DualNumber \<Rightarrow> DualNumber \<Rightarrow> DualNumber" where
  "op_plus left right = add_assign 0 1 (call_frame left right) 0"

definition op_minus :: "DualNumber \<Rightarrow> DualNumber \<Rightarrow> DualNumber" where
  "op_minus left right = sub_assign 0 1 (call_frame left right) 0"

text \<open>
  A user function that is written with the library, as the specification asks: the
  variable, constants, the unary minus, the four by-value binary operators, a scalar
  times a DualNumber, and the elementary functions. \<open>eval_dual L e\<close> is that function
  on DualNumbers, each node being the source's operator or function.
\<close>

datatype unary =
    FAbs | FInverse | FSqrt | FExp | FExp2 | FLog | FLog2 | FLog10
  | FSin | FCos | FTan | FAsin | FAcos | FAtan
  | FSinh | FCosh | FTanh | FAsinh | FAcosh | FAtanh

datatype expr =
    EVar
  | EConst double
  | ENeg expr
  | EAdd expr expr
  | ESub expr expr
  | EMul expr expr
  | EDiv expr expr
  | EScale double expr
  | EPow expr double
  | EPowDual expr expr
  | ELogBase expr double
  | EFun unary expr

primrec apply_unary :: "libm \<Rightarrow> unary \<Rightarrow> DualNumber \<Rightarrow> DualNumber" where
  "apply_unary L FAbs x = abs_dual x"
| "apply_unary L FInverse x = inverse_dual L x"
| "apply_unary L FSqrt x = sqrt_dual L x"
| "apply_unary L FExp x = exp_dual L x"
| "apply_unary L FExp2 x = exp2_dual L x"
| "apply_unary L FLog x = log_dual L x"
| "apply_unary L FLog2 x = log2_dual L x"
| "apply_unary L FLog10 x = log10_dual L x"
| "apply_unary L FSin x = sin_dual L x"
| "apply_unary L FCos x = cos_dual L x"
| "apply_unary L FTan x = tan_dual L x"
| "apply_unary L FAsin x = asin_dual L x"
| "apply_unary L FAcos x = acos_dual L x"
| "apply_unary L FAtan x = atan_dual L x"
| "apply_unary L FSinh x = sinh_dual L x"
| "apply_unary L FCosh x = cosh_dual L x"
| "apply_unary L FTanh x = tanh_dual L x"
| "apply_unary L FAsinh x = asinh_dual L x"
| "apply_unary L FAcosh x = acosh_dual L x"
| "apply_unary L FAtanh x = atanh_dual L x"

primrec eval_dual :: "libm \<Rightarrow> expr \<Rightarrow> DualNumber \<Rightarrow> DualNumber" where
  "eval_dual L EVar x = x"
| "eval_dual L (EConst c) x = from_double c"
| "eval_dual L (ENeg e) x = op_neg (eval_dual L e x)"
| "eval_dual L (EAdd a b) x = op_plus (eval_dual L a x) (eval_dual L b x)"
| "eval_dual L (ESub a b) x = op_minus (eval_dual L a x) (eval_dual L b x)"
| "eval_dual L (EMul a b) x = op_times (eval_dual L a x) (eval_dual L b x)"
| "eval_dual L (EDiv a b) x = op_divide (eval_dual L a x) (eval_dual L b x)"
| "eval_dual L (EScale c e) x = scalar_times c (eval_dual L e x)"
| "eval_dual L (EPow e c) x = pow_scalar L (eval_dual L e x) c"
| "eval_dual L (EPowDual a b) x = pow_dual L (eval_dual L a x) (eval_dual L b x)"
| "eval_dual L (ELogBase e b) x = log_base L (eval_dual L e x) b"
| "eval_dual L (EFun fn e) x = apply_unary L fn (eval_dual L e x)"





text \<open>
  Three functions for the examples, each with the primal \<open>x * x\<close>: \<open>square_fn\<close>, written
  with \<open>operator*\<close>; \<open>bypass_square\<close>, which multiplies the primal components itself and
  returns \<open>DualNumber{x.primal() * x.primal()}\<close>; and \<open>square_in_place\<close>, which runs
  \<open>x *= x\<close> on its by-value parameter and returns it.
\<close>

definition square_fn :: "DualNumber \<Rightarrow> DualNumber" where
  "square_fn x = op_times x x"

definition bypass_square :: "DualNumber \<Rightarrow> DualNumber" where
  "bypass_square x = from_double (fmul (primal x) (primal x))"

definition square_in_place :: "DualNumber \<Rightarrow> DualNumber" where
  "square_in_place x = mul_assign 0 0 (call_frame x x) 0"

section \<open>The C library at the edges of the domains\<close>

text \<open>
  Annex F of the C standard (F.10) fixes what the functions of the C library return
  outside their domains and at their poles: \<open>log(\<plusminus>0)\<close> is \<open>-\<infinity>\<close> and \<open>log(x)\<close> is a NaN
  for \<open>x < 0\<close>; \<open>asin(x)\<close> and \<open>acos(x)\<close> are NaNs for \<open>|x| > 1\<close>; \<open>acosh(x)\<close> is a NaN
  for \<open>x < 1\<close>; \<open>atanh(\<plusminus>1)\<close> is \<open>\<plusminus>\<infinity>\<close> and \<open>atanh(x)\<close> is a NaN for \<open>|x| > 1\<close>. None of
  them throws. A library with these values is what the source is compiled against.
\<close>

definition annex_f :: "libm \<Rightarrow> bool" where
  "annex_f L =
     ((\<forall>x. is_zero x \<longrightarrow> c_log L x = d_inf True) \<and>
      (\<forall>x. flt x zero_d \<longrightarrow> is_nan (c_log L x)) \<and>
      (\<forall>x. flt one_d (fabs x) \<longrightarrow> is_nan (c_asin L x)) \<and>
      (\<forall>x. flt one_d (fabs x) \<longrightarrow> is_nan (c_acos L x)) \<and>
      (\<forall>x. flt x one_d \<longrightarrow> is_nan (c_acosh L x)) \<and>
      (\<forall>x. fabs x = one_d \<longrightarrow> c_atanh L x = d_inf (dsign x)) \<and>
      (\<forall>x. flt one_d (fabs x) \<longrightarrow> is_nan (c_atanh L x)))"

text \<open>A C library for the examples: it returns the values of Annex F, and its argument
  everywhere else.\<close>

definition stub_libm :: libm where
  "stub_libm =
     \<lparr>c_pow = (\<lambda>x y. x), c_sqrt = (\<lambda>x. x), c_exp = (\<lambda>x. x),
      c_log = (\<lambda>x. if is_zero x then d_inf True else if flt x zero_d then d_nan else x),
      c_sin = (\<lambda>x. x), c_cos = (\<lambda>x. x), c_tan = (\<lambda>x. x),
      c_asin = (\<lambda>x. if flt one_d (fabs x) then d_nan else x),
      c_acos = (\<lambda>x. if flt one_d (fabs x) then d_nan else x),
      c_atan = (\<lambda>x. x), c_sinh = (\<lambda>x. x), c_cosh = (\<lambda>x. x), c_tanh = (\<lambda>x. x),
      c_asinh = (\<lambda>x. x),
      c_acosh = (\<lambda>x. if flt x one_d then d_nan else x),
      c_atanh = (\<lambda>x. if fabs x = one_d then d_inf (dsign x)
                      else if flt one_d (fabs x) then d_nan else x)\<rparr>"

section \<open>Facts about the arithmetic of doubles\<close>

text \<open>Unfolding these evaluates an operation on literal operands.\<close>

lemmas fp_eval = fmul_def fadd_def fdiv_def fsub_def fneg_def fabs_def is_nan_def is_inf_def is_zero_def
  d_nan_def d_inf_def d_zero_def mant_def qexp_def signed_mant_def round_int_def fadd_finite_def
  round_to_double_def round_ratio_def round_at_def encode_def
  ilog2_ratio_def ilog2_adjust_def round_half_even_def bitlen.simps flt_def fkey_def
lemmas lits = zero_d_def one_d_def two_d_def three_d_def four_d_def six_d_def minus_one_d_def epsilon_d_def

lemma fmul_2_2: "fmul two_d two_d = four_d" by (simp add: fp_eval lits)
lemma fmul_2_1: "fmul two_d one_d = two_d" by (simp add: fp_eval lits)
lemma fmul_1_2: "fmul one_d two_d = two_d" by (simp add: fp_eval lits)
lemma fmul_1_4: "fmul one_d four_d = four_d" by (simp add: fp_eval lits)
lemma fmul_1_1: "fmul one_d one_d = one_d" by (simp add: fp_eval lits)
lemma fadd_2_4: "fadd two_d four_d = six_d" by (simp add: fp_eval lits)
lemma fadd_2_2: "fadd two_d two_d = four_d" by (simp add: fp_eval lits)
lemma fdiv_2_2: "fdiv two_d two_d = one_d" by (simp add: fp_eval lits)
lemma fsub_1_2: "fsub one_d two_d = minus_one_d" by (simp add: fp_eval lits)
lemma fdiv_m1_1: "fdiv minus_one_d one_d = minus_one_d" by (simp add: fp_eval lits)
lemma fsub_2_2: "fsub two_d two_d = zero_d" by (simp add: fp_eval lits)
lemma fdiv_0_4: "fdiv zero_d four_d = zero_d" by (simp add: fp_eval lits)

text \<open>
  Two roundings: \<open>0.1 + 0.2\<close> is \<open>0.30000000000000004\<close>, the double above the one
  nearest to 0.3, and \<open>1.0 / 3.0\<close> is the double nearest to one third.
\<close>

lemma fadd_tenth_fifth: "fadd tenth_d fifth_d = three_tenths_up_d"
  by (simp add: fp_eval tenth_d_def fifth_d_def three_tenths_up_d_def)

lemma fdiv_1_3: "fdiv one_d three_d = third_d"
  by (simp add: fp_eval lits third_d_def)

section \<open>The product and the quotient of DualNumbers\<close>

text \<open>
  When \<open>*this\<close> and \<open>other\<close> are two objects, \<open>operator*=\<close> leaves the product rule's
  pair in \<open>*this\<close>; \<open>operator*\<close> always gets two objects, its left operand being a copy.
  When \<open>other\<close> is \<open>*this\<close>, the second factor of the dual component's second product
  is the new primal.
\<close>

lemma mul_assign_distinct:
  "this \<noteq> other \<Longrightarrow>
   mul_assign this other s this =
     \<lparr>primal = fmul (primal (s this)) (primal (s other)),
      dual = fadd (fmul (primal (s this)) (dual (s other))) (fmul (dual (s this)) (primal (s other)))\<rparr>"
  by (simp add: mul_assign_def Let_def set_primal_def set_dual_def)

lemma mul_assign_aliased:
  "mul_assign this this s this =
     \<lparr>primal = fmul (primal (s this)) (primal (s this)),
      dual = fadd (fmul (primal (s this)) (dual (s this)))
                  (fmul (dual (s this)) (fmul (primal (s this)) (primal (s this))))\<rparr>"
  by (simp add: mul_assign_def Let_def set_primal_def set_dual_def)

lemma op_times_product_rule:
  "op_times a b =
     \<lparr>primal = fmul (primal a) (primal b),
      dual = fadd (fmul (primal a) (dual b)) (fmul (dual a) (primal b))\<rparr>"
  by (simp add: op_times_def mul_assign_distinct call_frame_def)

lemma six_neq_four: "six_d \<noteq> four_d" by (simp add: six_d_def four_d_def)
lemma minus_one_neq_zero: "minus_one_d \<noteq> zero_d" by (simp add: minus_one_d_def zero_d_def)

text \<open>
  Claim C3: for all DualNumbers \<open>a\<close> and \<open>b\<close>, \<open>a * b\<close> and the in-place \<open>operator*=\<close>
  have primal \<open>a.primal * b.primal\<close> and dual \<open>a.primal * b.dual + a.dual * b.primal\<close>.
  The in-place operator breaks this when \<open>other\<close> is \<open>*this\<close>: \<open>dual()\<close> is computed
  after \<open>primal()\<close> has been overwritten, and reads the new primal through \<open>other\<close>.
  For \<open>a = (2.0, 1.0)\<close>, \<open>a *= a\<close> leaves \<open>(4.0, 6.0)\<close> in \<open>a\<close>, where the product rule
  gives the dual component \<open>2.0 * 1.0 + 1.0 * 2.0 = 4.0\<close>, as \<open>a * a\<close> does.
\<close>

theorem mul_assign_self_alias:
  "mul_assign 0 0 store_2_1 0 = \<lparr>primal = four_d, dual = six_d\<rparr> \<and>
   fadd (fmul two_d one_d) (fmul one_d two_d) = four_d \<and> six_d \<noteq> four_d \<and>
   op_times (store_2_1 0) (store_2_1 0) = \<lparr>primal = four_d, dual = four_d\<rparr>"
  by (simp add: mul_assign_def Let_def set_primal_def set_dual_def store_2_1_def
      op_times_product_rule fmul_2_2 fmul_2_1 fmul_1_2 fmul_1_4 fadd_2_4 fadd_2_2 six_neq_four)

text \<open>The same for the quotient: two distinct objects, and \<open>operator/\<close>.\<close>

lemma div_assign_distinct:
  "this \<noteq> other \<Longrightarrow>
   div_assign this other s this =
     \<lparr>primal = fdiv (primal (s this)) (primal (s other)),
      dual = fdiv (fsub (fmul (dual (s this)) (primal (s other)))
                        (fmul (primal (s this)) (dual (s other))))
                  (fmul (primal (s other)) (primal (s other)))\<rparr>"
  by (simp add: div_assign_def Let_def set_primal_def set_dual_def)

lemma div_assign_aliased:
  "div_assign this this s this =
     \<lparr>primal = fdiv (primal (s this)) (primal (s this)),
      dual = fdiv (fsub (fmul (dual (s this)) (fdiv (primal (s this)) (primal (s this))))
                        (fmul (primal (s this)) (dual (s this))))
                  (fmul (fdiv (primal (s this)) (primal (s this)))
                        (fdiv (primal (s this)) (primal (s this))))\<rparr>"
  by (simp add: div_assign_def Let_def set_primal_def set_dual_def)

lemma op_divide_quotient_rule:
  "op_divide a b =
     \<lparr>primal = fdiv (primal a) (primal b),
      dual = fdiv (fsub (fmul (dual a) (primal b)) (fmul (primal a) (dual b)))
                  (fmul (primal b) (primal b))\<rparr>"
  by (simp add: op_divide_def div_assign_distinct call_frame_def)

lemma zero_not_nan_inf: "is_zero x \<Longrightarrow> \<not> is_nan x \<and> \<not> is_inf x"
  by (simp add: is_zero_def is_nan_def is_inf_def)

lemma is_nan_d_nan: "is_nan d_nan"
  by (simp add: is_nan_def d_nan_def)

lemma is_inf_d_inf: "is_inf (d_inf s)"
  by (simp add: is_inf_def d_inf_def)

lemma is_zero_d_zero: "is_zero (d_zero s)"
  by (simp add: is_zero_def d_zero_def)

lemma fdiv_by_zero: "is_zero y \<Longrightarrow> nan_or_inf (fdiv x y)"
  by (simp add: fdiv_def nan_or_inf_def zero_not_nan_inf is_nan_d_nan is_inf_d_inf)

lemma fmul_zero_zero: "is_zero x \<Longrightarrow> is_zero y \<Longrightarrow> is_zero (fmul x y)"
  by (simp add: fmul_def zero_not_nan_inf is_zero_d_zero)

lemma op_divide_by_zero:
  "is_zero (primal b) \<Longrightarrow>
   nan_or_inf (primal (op_divide a b)) \<and> nan_or_inf (dual (op_divide a b))"
  by (simp add: op_divide_quotient_rule fdiv_by_zero fmul_zero_zero)

text \<open>
  Claim C4: for all DualNumbers \<open>a\<close> and \<open>b\<close>, \<open>a / b\<close> and the in-place \<open>operator/=\<close>
  have primal \<open>a.primal / b.primal\<close> and dual
  \<open>(a.dual * b.primal - a.primal * b.dual) / b.primal\<^sup>2\<close>. The in-place operator breaks
  this when \<open>other\<close> is \<open>*this\<close>, by the same read after write as \<open>operator*=\<close>: for
  \<open>a = (2.0, 1.0)\<close>, \<open>a /= a\<close> leaves \<open>(1.0, -1.0)\<close> in \<open>a\<close>, where the quotient rule
  gives the dual component \<open>(1.0 * 2.0 - 2.0 * 1.0) / (2.0 * 2.0) = 0.0\<close>, as \<open>a / a\<close> does.
\<close>

theorem div_assign_self_alias:
  "div_assign 0 0 store_2_1 0 = \<lparr>primal = one_d, dual = minus_one_d\<rparr> \<and>
   fdiv (fsub (fmul one_d two_d) (fmul two_d one_d)) (fmul two_d two_d) = zero_d \<and>
   minus_one_d \<noteq> zero_d \<and>
   op_divide (store_2_1 0) (store_2_1 0) = \<lparr>primal = one_d, dual = zero_d\<rparr>"
  by (simp add: div_assign_def Let_def set_primal_def set_dual_def store_2_1_def
      op_divide_quotient_rule fdiv_2_2 fmul_1_1 fmul_2_1 fmul_1_2 fsub_1_2 fdiv_m1_1 fmul_2_2
      fsub_2_2 fdiv_0_4 minus_one_neq_zero)

section \<open>The absolute value\<close>

lemma fabs_zero: "is_zero x \<Longrightarrow> is_zero (fabs x)"
  by (simp add: is_zero_def fabs_def)

lemma fmul_by_zero: "is_zero y \<Longrightarrow> is_nan (fmul x y) \<or> is_zero (fmul x y)"
  by (simp add: fmul_def zero_not_nan_inf is_nan_d_nan is_zero_d_zero)

lemma fdiv_nan_left: "is_nan x \<Longrightarrow> is_nan (fdiv x y)"
  by (simp add: fdiv_def is_nan_d_nan)

lemma fdiv_zero_zero: "is_zero x \<Longrightarrow> is_zero y \<Longrightarrow> is_nan (fdiv x y)"
  by (simp add: fdiv_def zero_not_nan_inf is_nan_d_nan)

text \<open>
  Claim C9: \<open>abs(a)\<close> has primal \<open>|a.primal|\<close> and dual \<open>a.dual * a.primal / |a.primal|\<close>,
  and when \<open>a.primal\<close> is zero (of either sign) the dual component is a NaN, whatever
  \<open>a.dual\<close> is: the numerator is a zero or a NaN, and the denominator is \<open>+0\<close>.
\<close>

theorem abs_dual_rule:
  "primal (abs_dual a) = fabs (primal a) \<and>
   dual (abs_dual a) = fdiv (fmul (dual a) (primal a)) (fabs (primal a)) \<and>
   (is_zero (primal a) \<longrightarrow> is_nan (dual (abs_dual a)))"
proof -
  have "is_nan (fdiv (fmul (dual a) (primal a)) (fabs (primal a)))" if z: "is_zero (primal a)"
    using fmul_by_zero [OF z, of "dual a"] fabs_zero [OF z]
    by (auto intro: fdiv_nan_left fdiv_zero_zero)
  then show ?thesis by (simp add: abs_dual_def)
qed

lemma is_zero_zero_d: "is_zero zero_d" by (simp add: is_zero_def zero_d_def)

theorem abs_dual_rule_witness:
  "is_zero (primal \<lparr>primal = zero_d, dual = one_d\<rparr>) \<and>
   is_nan (dual (abs_dual \<lparr>primal = zero_d, dual = one_d\<rparr>))"
proof -
  have z: "is_zero (primal \<lparr>primal = zero_d, dual = one_d\<rparr>)"
    by (simp add: is_zero_zero_d)
  with abs_dual_rule [of "\<lparr>primal = zero_d, dual = one_d\<rparr>"] show ?thesis
    by blast
qed

section \<open>Equality of DualNumbers\<close>

lemma fneg_fields: "dexp (fneg x) = dexp x" "dfrac (fneg x) = dfrac x" "dsign (fneg x) = (\<not> dsign x)"
  by (simp_all add: fneg_def)

lemma fsub_self: "is_finite x \<Longrightarrow> fsub x x = d_zero False"
  by (simp add: fsub_def fadd_def is_finite_def is_nan_def is_inf_def is_zero_def fneg_fields
      fadd_finite_def signed_mant_def mant_def qexp_def round_int_def)

lemma flt_abs_zero_epsilon: "flt (fabs (d_zero False)) epsilon_d"
  by (simp add: flt_def fabs_def d_zero_def epsilon_d_def is_nan_def fkey_def)

lemma spec_approx_equal_refl:
  "is_finite (primal a) \<Longrightarrow> is_finite (dual a) \<Longrightarrow> spec_approx_equal a a"
  by (simp add: spec_approx_equal_def fsub_self flt_abs_zero_epsilon)

lemma fsub_nan: "is_nan x \<Longrightarrow> is_nan (fsub x y)"
  by (simp add: fsub_def fadd_def is_nan_d_nan)

lemma fabs_nan: "is_nan x \<Longrightarrow> is_nan (fabs x)"
  by (simp add: fabs_def is_nan_def)

lemma flt_nan: "is_nan x \<Longrightarrow> \<not> flt x y"
  by (simp add: flt_def)

text \<open>
  Claim C8 as stated, that \<open>operator==\<close> returns true exactly when both components
  differ by less than epsilon, also for NaN components, fails when an object with a NaN
  component is compared with itself: the address test answers true, and
  \<open>|NaN - NaN| < epsilon\<close> is false.
\<close>

theorem op_eq_same_object_nan:
  "op_eq 0 0 store_nan \<and> \<not> spec_approx_equal (store_nan 0) (store_nan 0)"
  by (simp add: op_eq_def spec_approx_equal_def store_nan_def flt_nan fabs_nan fsub_nan is_nan_d_nan)

text \<open>
  Claim C8, amended: \<open>operator==\<close> returns true exactly when the two operands are the
  same object or both components differ by less than epsilon, and \<open>operator!=\<close> is its
  negation. For two distinct objects this is the epsilon test alone, and for an object
  whose components are finite the address test agrees with the epsilon test.
\<close>

theorem op_eq_identity_or_close:
  "(op_eq this other s \<longleftrightarrow> this = other \<or> spec_approx_equal (s this) (s other)) \<and>
   (op_ne this other s \<longleftrightarrow> \<not> op_eq this other s) \<and>
   (this \<noteq> other \<longrightarrow> op_eq this other s = spec_approx_equal (s this) (s other)) \<and>
   (is_finite (primal (s this)) \<and> is_finite (dual (s this)) \<longrightarrow>
      op_eq this this s = spec_approx_equal (s this) (s this))"
  by (simp add: op_eq_def op_ne_def spec_approx_equal_refl)
    (simp add: spec_approx_equal_def)

lemma fsub_1_1: "fsub one_d one_d = zero_d" by (simp add: fp_eval lits)

lemma lt_zero_epsilon: "flt (fabs zero_d) epsilon_d"
  by (simp add: flt_def fabs_def zero_d_def epsilon_d_def is_nan_def fkey_def)

lemma finite_one_two: "is_finite one_d" "is_finite two_d"
  by (simp_all add: is_finite_def one_d_def two_d_def)

theorem op_eq_identity_or_close_witness:
  "(0::nat) \<noteq> 1 \<and> op_eq 0 1 store_2_1 \<and> \<not> op_ne 0 1 store_2_1 \<and>
   is_finite (primal (store_2_1 0)) \<and> is_finite (dual (store_2_1 0)) \<and> op_eq 0 0 store_2_1 \<and>
   spec_approx_equal (store_2_1 0) (store_2_1 0)"
proof -
  have a: "spec_approx_equal (store_2_1 0) (store_2_1 1)"
    by (simp add: spec_approx_equal_def store_2_1_def fsub_2_2 fsub_1_1 lt_zero_epsilon)
  have b: "is_finite (primal (store_2_1 0)) \<and> is_finite (dual (store_2_1 0))"
    by (simp add: store_2_1_def finite_one_two)
  from a b op_eq_identity_or_close [of 0 1 store_2_1] op_eq_identity_or_close [of 0 0 store_2_1]
  show ?thesis by simp
qed

section \<open>The seeded loops\<close>

lemma length_lift_input: "length (lift_input u) = length u"
  by (simp add: lift_input_def)

lemma length_seeded_input: "length (seeded_input u i) = length u"
  by (simp add: seeded_input_def)

lemma seed_on:
  assumes "i < length u"
  shows "(lift_input u)[i := (lift_input u ! i)\<lparr>dual := one_d\<rparr>] = seeded_input u i"
proof (rule nth_equalityI)
  show "length ((lift_input u)[i := (lift_input u ! i)\<lparr>dual := one_d\<rparr>]) = length (seeded_input u i)"
    by (simp add: length_lift_input length_seeded_input)
next
  fix j
  assume "j < length ((lift_input u)[i := (lift_input u ! i)\<lparr>dual := one_d\<rparr>])"
  then have j: "j < length u" by (simp add: length_lift_input)
  with assms show "(lift_input u)[i := (lift_input u ! i)\<lparr>dual := one_d\<rparr>] ! j = seeded_input u i ! j"
    by (simp add: lift_input_def seeded_input_def nth_list_update)
qed

lemma seed_off:
  assumes "i < length u"
  shows "(seeded_input u i)[i := (seeded_input u i ! i)\<lparr>dual := zero_d\<rparr>] = lift_input u"
proof (rule nth_equalityI)
  show "length ((seeded_input u i)[i := (seeded_input u i ! i)\<lparr>dual := zero_d\<rparr>]) = length (lift_input u)"
    by (simp add: length_lift_input length_seeded_input)
next
  fix j
  assume "j < length ((seeded_input u i)[i := (seeded_input u i ! i)\<lparr>dual := zero_d\<rparr>])"
  then have j: "j < length u" by (simp add: length_seeded_input)
  with assms show "(seeded_input u i)[i := (seeded_input u i ! i)\<lparr>dual := zero_d\<rparr>] ! j = lift_input u ! j"
    by (simp add: lift_input_def seeded_input_def nth_list_update)
qed

lemma seeded_calls_step: "i < length u \<Longrightarrow> seeded_calls u i = seeded_input u i # seeded_calls u (Suc i)"
  by (simp add: seeded_calls_def upt_conv_Cons)

lemma seeded_calls_done: "\<not> i < length u \<Longrightarrow> seeded_calls u i = []"
  by (simp add: seeded_calls_def)

lemma evaluate_vec_loop_from:
  "evaluate_vec_loop f i (lift_input u) evaluations log =
     (lift_input u, evaluations @ map f (seeded_calls u i), log @ seeded_calls u i)"
proof (induction "length u - i" arbitrary: i evaluations log)
  case 0
  then have "\<not> i < length u" by simp
  then show ?case
    by (subst evaluate_vec_loop.simps) (simp add: length_lift_input seeded_calls_done)
next
  case (Suc k)
  then have i: "i < length u" and k: "k = length u - Suc i" by simp_all
  have "evaluate_vec_loop f i (lift_input u) evaluations log =
        evaluate_vec_loop f (Suc i) (lift_input u) (evaluations @ [f (seeded_input u i)])
          (log @ [seeded_input u i])"
    using i by (subst evaluate_vec_loop.simps)
      (simp add: length_lift_input seed_on seed_off invoke_def Let_def)
  also have "\<dots> = (lift_input u, (evaluations @ [f (seeded_input u i)]) @ map f (seeded_calls u (Suc i)),
        (log @ [seeded_input u i]) @ seeded_calls u (Suc i))"
    by (rule Suc.hyps(1) [OF k])
  finally show ?case using i by (simp add: seeded_calls_step)
qed

lemma length_seeded_calls: "length (seeded_calls u 0) = length u"
  by (simp add: seeded_calls_def)

lemma seeded_calls_nth: "i < length u \<Longrightarrow> seeded_calls u 0 ! i = seeded_input u i"
  by (simp add: seeded_calls_def)

lemma gradient_vec_eq:
  "gradient_vec f u log = (map (\<lambda>x. dual (f x)) (seeded_calls u 0), log @ seeded_calls u 0)"
  by (simp add: gradient_vec_def evaluate_vec_def evaluate_vec_loop_from)

lemma jacobian_vec_loop_eq:
  "jacobian_vec_loop fs u jac log =
     (jac @ map (\<lambda>func. fst (gradient_vec func u [])) fs,
      log @ concat (map (\<lambda>func. seeded_calls u 0) fs))"
  by (induction fs arbitrary: jac log) (simp_all add: gradient_vec_eq)

lemma eigen_seed_on:
  "i < length u \<Longrightarrow> eigen_put_dual (lift_input u) i one_d = Inr (seeded_input u i)"
  using seed_on [of i u] by (simp add: eigen_put_dual_def eigen_at_def length_lift_input)

lemma eigen_seed_off:
  "i < length u \<Longrightarrow> eigen_put_dual (seeded_input u i) i zero_d = Inr (lift_input u)"
  using seed_off [of i u] by (simp add: eigen_put_dual_def eigen_at_def length_seeded_input)

text \<open>The evaluations after the loop has run from index \<open>i\<close>: the entries below \<open>i\<close> are
  as they were, and entry \<open>k\<close> from \<open>i\<close> on is the result of the call seeded at \<open>k\<close>.\<close>

lemma evaluate_eigen_loop_from:
  assumes "length evaluations = length u"
  shows "evaluate_eigen_loop f i (lift_input u) evaluations log =
     Inr (lift_input u,
          map (\<lambda>k. if k < i then evaluations ! k else f (seeded_input u k)) [0..<length u],
          log @ seeded_calls u i)"
  using assms
proof (induction "length u - i" arbitrary: i evaluations log)
  case 0
  then have "\<not> i < length u" by simp
  moreover from this 0 have
    "map (\<lambda>k. if k < i then evaluations ! k else f (seeded_input u k)) [0..<length u] = evaluations"
    by (intro nth_equalityI) simp_all
  ultimately show ?case
    by (subst evaluate_eigen_loop.simps) (simp add: length_lift_input seeded_calls_done)
next
  case (Suc k)
  then have i: "i < length u" and k: "k = length u - Suc i" by simp_all
  let ?r = "f (seeded_input u i)"
  have len: "length (evaluations[i := ?r]) = length u" using Suc.prems by simp
  have "evaluate_eigen_loop f i (lift_input u) evaluations log =
        evaluate_eigen_loop f (Suc i) (lift_input u) (evaluations[i := ?r]) (log @ [seeded_input u i])"
    using i Suc.prems
    by (subst evaluate_eigen_loop.simps)
      (simp add: length_lift_input eigen_seed_on eigen_seed_off invoke_def eigen_put_def)
  also have "\<dots> = Inr (lift_input u,
        map (\<lambda>j. if j < Suc i then evaluations[i := ?r] ! j else f (seeded_input u j)) [0..<length u],
        (log @ [seeded_input u i]) @ seeded_calls u (Suc i))"
    by (rule Suc.hyps(1) [OF k len])
  also have "map (\<lambda>j. if j < Suc i then evaluations[i := ?r] ! j else f (seeded_input u j)) [0..<length u]
      = map (\<lambda>j. if j < i then evaluations ! j else f (seeded_input u j)) [0..<length u]"
    using i Suc.prems by (intro map_cong refl) (auto simp: nth_list_update less_Suc_eq)
  finally show ?case using i by (simp add: seeded_calls_step)
qed

lemma evaluate_eigen_eq:
  "evaluate_eigen f u log = Inr (map f (seeded_calls u 0), log @ seeded_calls u 0)"
  by (simp add: evaluate_eigen_def evaluate_eigen_loop_from seeded_calls_def)

lemma gradient_eigen_eq:
  "gradient_eigen f u log = Inr (map (\<lambda>x. dual (f x)) (seeded_calls u 0), log @ seeded_calls u 0)"
  by (simp add: gradient_eigen_def evaluate_eigen_eq)

lemma jacobian_eigen_loop_from:
  assumes "nrows jac = length fs" and "ncols jac = length u"
  shows "jacobian_eigen_loop fs u i jac log =
     Inr (rows_from fs u i jac, log @ concat (replicate (length fs - i) (seeded_calls u 0)))"
  using assms
proof (induction "length fs - i" arbitrary: i jac log)
  case 0
  then have "\<not> i < nrows jac" by simp
  moreover from 0 have "(\<lambda>r c. if i \<le> r \<and> r < length fs \<and> c < length u
      then dual ((fs ! r) (seeded_input u c)) else coeff jac r c) = coeff jac"
    by (auto simp: fun_eq_iff)
  then have "rows_from fs u i jac = jac"
    by (simp add: rows_from_def)
  ultimately show ?case using 0
    by (subst jacobian_eigen_loop.simps) simp
next
  case (Suc k)
  then have i: "i < length fs" and k: "k = length fs - Suc i" by simp_all
  let ?g = "map (\<lambda>x. dual ((fs ! i) x)) (seeded_calls u 0)"
  let ?jac = "jac\<lparr>coeff := (coeff jac)(i := (\<lambda>j. if j < length ?g then ?g ! j else coeff jac i j))\<rparr>"
  have dims: "nrows ?jac = length fs" "ncols ?jac = length u" using Suc.prems by simp_all
  have "jacobian_eigen_loop fs u i jac log =
        jacobian_eigen_loop fs u (Suc i) ?jac (log @ seeded_calls u 0)"
    using i Suc.prems
    by (subst jacobian_eigen_loop.simps)
      (simp add: std_vector_at_def gradient_eigen_eq mat_put_row_def length_seeded_calls)
  also have "\<dots> = Inr (rows_from fs u (Suc i) ?jac,
       (log @ seeded_calls u 0) @ concat (replicate (length fs - Suc i) (seeded_calls u 0)))"
    by (rule Suc.hyps(1) [OF k dims])
  also have "rows_from fs u (Suc i) ?jac = rows_from fs u i jac"
    using i
    by (intro matrix.equality)
      (auto simp: rows_from_def fun_eq_iff length_seeded_calls seeded_calls_nth)
  also have "(log @ seeded_calls u 0) @ concat (replicate (length fs - Suc i) (seeded_calls u 0))
      = log @ concat (replicate (length fs - i) (seeded_calls u 0))"
  proof -
    from i have "length fs - i = Suc (length fs - Suc i)" by simp
    then show ?thesis by simp
  qed
  finally show ?case .
qed

lemma jacobian_eigen_eq:
  "jacobian_eigen fs u garbage log =
     Inr (rows_from fs u 0 (mat_create (length fs) (length u) garbage),
          log @ concat (replicate (length fs) (seeded_calls u 0)))"
  using jacobian_eigen_loop_from [of "mat_create (length fs) (length u) garbage" fs u 0 log]
  by (simp add: jacobian_eigen_def mat_create_def)

lemma fill_dual_numbers_from:
  assumes "length dual_numbers = n" and "length u = n"
  shows "fill_dual_numbers u n i dual_numbers =
     Inr (map (\<lambda>k. if k < i then dual_numbers ! k else \<lparr>primal = u ! k, dual = zero_d\<rparr>) [0..<n])"
  using assms(1)
proof (induction "n - i" arbitrary: i dual_numbers)
  case 0
  then have "\<not> i < n" by simp
  moreover from this 0 have
    "map (\<lambda>k. if k < i then dual_numbers ! k else \<lparr>primal = u ! k, dual = zero_d\<rparr>) [0..<n] = dual_numbers"
    by (intro nth_equalityI) simp_all
  ultimately show ?case
    by (subst fill_dual_numbers.simps) simp
next
  case (Suc k)
  then have i: "i < n" and k: "k = n - Suc i" by simp_all
  let ?x = "\<lparr>primal = u ! i, dual = zero_d\<rparr>"
  have len: "length (dual_numbers[i := ?x]) = n" using Suc.prems by simp
  have "fill_dual_numbers u n i dual_numbers = fill_dual_numbers u n (Suc i) (dual_numbers[i := ?x])"
    using i Suc.prems assms(2)
    by (subst fill_dual_numbers.simps) (simp add: eigen_at_def eigen_put_def)
  also have "\<dots> = Inr (map (\<lambda>j. if j < Suc i then dual_numbers[i := ?x] ! j
                               else \<lparr>primal = u ! j, dual = zero_d\<rparr>) [0..<n])"
    by (rule Suc.hyps(1) [OF k len])
  also have "map (\<lambda>j. if j < Suc i then dual_numbers[i := ?x] ! j
                       else \<lparr>primal = u ! j, dual = zero_d\<rparr>) [0..<n]
      = map (\<lambda>j. if j < i then dual_numbers ! j else \<lparr>primal = u ! j, dual = zero_d\<rparr>) [0..<n]"
    using i Suc.prems by (intro map_cong refl) (auto simp: nth_list_update less_Suc_eq)
  finally show ?case .
qed

lemma fill_dual_numbers_eq:
  "fill_dual_numbers u (length u) 0 (replicate (length u) default_dual) = Inr (lift_input u)"
proof -
  have "map (\<lambda>k. \<lparr>primal = u ! k, dual = zero_d\<rparr>) [0..<length u] = lift_input u"
    by (intro nth_equalityI) (simp_all add: lift_input_def)
  then show ?thesis
    by (simp add: fill_dual_numbers_from)
qed

lemma harvest_column_ok:
  assumes "i < ncols jac" and "m \<le> nrows jac" and "m \<le> length result"
  shows "harvest_column m result i j jac = Inr (column_from m result i j jac)"
  using assms(1,2)
proof (induction "m - j" arbitrary: j jac)
  case 0
  then have "\<not> j < m" by simp
  moreover from this have "column_from m result i j jac = jac"
    by (intro matrix.equality) (auto simp: column_from_def fun_eq_iff)
  ultimately show ?case
    by (subst harvest_column.simps) simp
next
  case (Suc k)
  then have j: "j < m" and k: "k = m - Suc j" by simp_all
  let ?jac = "jac\<lparr>coeff := (coeff jac)(j := (coeff jac j)(i := dual (result ! j)))\<rparr>"
  have dims: "i < ncols ?jac" "m \<le> nrows ?jac" using Suc.prems by simp_all
  have "harvest_column m result i j jac = harvest_column m result i (Suc j) ?jac"
    using j Suc.prems assms(3)
    by (subst harvest_column.simps) (simp add: eigen_at_def mat_put_col_def)
  also have "\<dots> = Inr (column_from m result i (Suc j) ?jac)"
    by (rule Suc.hyps(1) [OF k dims])
  also have "column_from m result i (Suc j) ?jac = column_from m result i j jac"
    using j by (intro matrix.equality) (auto simp: column_from_def fun_eq_iff)
  finally show ?case .
qed

lemma column_from_dims: "nrows (column_from m result i j jac) = nrows jac"
  "ncols (column_from m result i j jac) = ncols jac"
  by (simp_all add: column_from_def)

lemma jacobian_loop_ok:
  assumes "ncols jac = length u" and "nrows jac = m"
    and "\<forall>k. i \<le> k \<and> k < length u \<longrightarrow> m \<le> length (f (seeded_input u k))"
  shows "jacobian_loop m f (length u) i (lift_input u) jac log =
     Inr (lift_input u, columns_from m f u i jac, log @ seeded_calls u i)"
  using assms
proof (induction "length u - i" arbitrary: i jac log)
  case 0
  then have "\<not> i < length u" by simp
  moreover from this have "columns_from m f u i jac = jac"
    by (intro matrix.equality) (auto simp: columns_from_def fun_eq_iff)
  ultimately show ?case
    by (subst jacobian_loop.simps) (simp add: seeded_calls_done)
next
  case (Suc k)
  then have i: "i < length u" and k: "k = length u - Suc i" by simp_all
  let ?result = "f (seeded_input u i)"
  let ?jac = "column_from m ?result i 0 jac"
  from Suc.prems i have arity: "m \<le> length ?result" by simp
  have harvest: "harvest_column m ?result i 0 jac = Inr ?jac"
    using i Suc.prems(1,2) arity by (intro harvest_column_ok) simp_all
  have dims: "ncols ?jac = length u" "nrows ?jac = m"
    using Suc.prems by (simp_all add: column_from_dims)
  have rest: "\<forall>k. Suc i \<le> k \<and> k < length u \<longrightarrow> m \<le> length (f (seeded_input u k))"
    using Suc.prems(3) by simp
  have "jacobian_loop m f (length u) i (lift_input u) jac log =
        jacobian_loop m f (length u) (Suc i) (lift_input u) ?jac (log @ [seeded_input u i])"
    using i
    by (subst jacobian_loop.simps) (simp add: eigen_seed_on eigen_seed_off invoke_def harvest)
  also have "\<dots> = Inr (lift_input u, columns_from m f u (Suc i) ?jac,
        (log @ [seeded_input u i]) @ seeded_calls u (Suc i))"
    by (rule Suc.hyps(1) [OF k dims rest])
  also have "columns_from m f u (Suc i) ?jac = columns_from m f u i jac"
    using i by (intro matrix.equality) (auto simp: columns_from_def column_from_def fun_eq_iff)
  finally show ?case using i by (simp add: seeded_calls_step)
qed

lemma jacobian_dynamic_ok:
  assumes "\<forall>k<length u. m \<le> length (f (seeded_input u k))"
  shows "jacobian_dynamic m f u garbage log =
     Inr (columns_from m f u 0 (mat_create m (length u) garbage), log @ seeded_calls u 0)"
  using assms jacobian_loop_ok [of "mat_create m (length u) garbage" u m 0 f log]
  by (simp add: jacobian_dynamic_def fill_dual_numbers_eq mat_create_def)

lemma jacobian_fixed_ok:
  assumes "length u = InputSize" and "\<forall>k<length u. m \<le> length (f (seeded_input u k))"
  shows "jacobian_fixed m InputSize f u garbage log =
     Inr (columns_from m f u 0 (mat_create m InputSize garbage), log @ seeded_calls u 0)"
  using assms jacobian_loop_ok [of "mat_create m (length u) garbage" u m 0 f log]
    fill_dual_numbers_eq [of u]
  by (simp add: jacobian_fixed_def mat_create_def)

section \<open>The claims about the engine\<close>

lemma one_neq_zero_d: "one_d \<noteq> zero_d"
  by (simp add: one_d_def zero_d_def)

lemma seeded_calls_0: "seeded_calls u 0 = map (seeded_input u) [0..<length u]"
  by (simp add: seeded_calls_def)

lemma seeded_input_dual:
  "j < length u \<Longrightarrow> dual (seeded_input u i ! j) = (if j = i then one_d else zero_d)"
  by (simp add: seeded_input_def)

lemma lift_input_dual: "j < length u \<Longrightarrow> dual (lift_input u ! j) = zero_d"
  by (simp add: lift_input_def)




lemma divide_scalar_rule:
  "divide_scalar x c = \<lparr>primal = fdiv (primal x) c, dual = fdiv (dual x) c\<rparr>"
  by (simp add: divide_scalar_def div_assign_scalar_def Let_def)



lemma bypass_square_primal: "primal (bypass_square x) = primal (square_fn x)"
  by (simp add: bypass_square_def square_fn_def from_double_def op_times_product_rule)

lemma square_in_place_primal: "primal (square_in_place x) = primal (square_fn x)"
  by (simp add: square_in_place_def square_fn_def op_times_product_rule mul_assign_aliased
      call_frame_def)

lemma square_fn_expr: "square_fn = eval_dual L (EMul EVar EVar)"
  by (simp add: square_fn_def fun_eq_iff)



text \<open>
  The in-place operator on one object is the third way to write the square: there the
  dual component is 6.0, by the read after write of \<open>operator*=\<close>.
\<close>

lemma evaluate_square_in_place:
  "evaluate square_in_place two_d [] =
     (\<lparr>primal = four_d, dual = six_d\<rparr>, [\<lparr>primal = two_d, dual = one_d\<rparr>])"
  by (simp add: evaluate_def invoke_def square_in_place_def mul_assign_aliased call_frame_def
      fmul_2_2 fmul_2_1 fmul_1_4 fadd_2_4)



text \<open>
  Claim C1: \<open>gradient(f, u)\<close> returns exactly \<open>length u\<close> doubles, entry \<open>i\<close> being the
  dual component of \<open>f\<close> applied to the input seeded at \<open>i\<close>, and it invokes \<open>f\<close> exactly
  \<open>length u\<close> times, on the seeded inputs in index order.
\<close>

theorem gradient_vec_seeded:
  "length (fst (gradient_vec f u log)) = length u \<and>
   (\<forall>i<length u. fst (gradient_vec f u log) ! i = dual (f (seeded_input u i))) \<and>
   snd (gradient_vec f u log) = log @ map (seeded_input u) [0..<length u] \<and>
   length (snd (gradient_vec f u log)) = length log + length u"
  by (simp add: gradient_vec_eq length_seeded_calls seeded_calls_nth) (simp add: seeded_calls_def)

lemma fmul_2_0: "fmul two_d zero_d = zero_d" by (simp add: fp_eval lits)
lemma fmul_0_3: "fmul zero_d three_d = zero_d" by (simp add: fp_eval lits)
lemma fmul_1_3: "fmul one_d three_d = three_d" by (simp add: fp_eval lits)
lemma fadd_0_3: "fadd zero_d three_d = three_d" by (simp add: fp_eval lits)
lemma fadd_2_0: "fadd two_d zero_d = two_d" by (simp add: fp_eval lits)

lemma product_fn_seeded_0:
  "dual (product_fn (seeded_input [two_d, three_d] 0)) = three_d"
  by (simp add: product_fn_def seeded_input_def op_times_product_rule fmul_2_0 fmul_1_3 fadd_0_3)

lemma product_fn_seeded_1:
  "dual (product_fn (seeded_input [two_d, three_d] (Suc 0))) = two_d"
  by (simp add: product_fn_def seeded_input_def op_times_product_rule fmul_2_1 fmul_0_3 fadd_2_0)


theorem gradient_vec_seeded_witness:
  "(0::nat) < length [two_d, three_d] \<and> (1::nat) < length [two_d, three_d] \<and>
   fst (gradient_vec product_fn [two_d, three_d] []) ! 0 = three_d \<and>
   fst (gradient_vec product_fn [two_d, three_d] []) ! 1 = two_d \<and>
   length (snd (gradient_vec product_fn [two_d, three_d] [])) = 2"
  using gradient_vec_seeded [of product_fn "[two_d, three_d]" "[]"]
  by (simp add: product_fn_seeded_0 product_fn_seeded_1)

text \<open>
  Claim C6: the multi-function \<open>jacobian\<close> overloads return an \<open>m\<close> by \<open>n\<close> matrix whose
  row \<open>i\<close> is \<open>gradient(f[i], u)\<close>, so that entry \<open>(i, j)\<close> is the dual component of
  \<open>f[i]\<close> at the input seeded at \<open>j\<close>, and they invoke the functions \<open>m * n\<close> times in
  total: each function in turn on the \<open>n\<close> seeded inputs.
\<close>

theorem jacobian_multi_rows:
  "fst (jacobian_vec fs u log) = map (\<lambda>func. fst (gradient_vec func u [])) fs \<and>
   length (fst (jacobian_vec fs u log)) = length fs \<and>
   (\<forall>i<length fs. \<forall>j<length u.
      fst (jacobian_vec fs u log) ! i ! j = dual ((fs ! i) (seeded_input u j))) \<and>
   snd (jacobian_vec fs u log) =
     log @ concat (replicate (length fs) (map (seeded_input u) [0..<length u])) \<and>
   length (snd (jacobian_vec fs u log)) = length log + length fs * length u \<and>
   (\<exists>jac log'. jacobian_eigen fs u garbage log = Inr (jac, log') \<and>
      nrows jac = length fs \<and> ncols jac = length u \<and>
      (\<forall>i<length fs. gradient_eigen (fs ! i) u [] = Inr (mat_row jac i, seeded_calls u 0) \<and>
         mat_row jac i = fst (gradient_vec (fs ! i) u [])) \<and>
      (\<forall>i<length fs. \<forall>j<length u. coeff jac i j = dual ((fs ! i) (seeded_input u j))) \<and>
      log' = log @ concat (replicate (length fs) (map (seeded_input u) [0..<length u])) \<and>
      length log' = length log + length fs * length u)"
proof -
  have calls: "map (\<lambda>func. seeded_calls u 0) fs = replicate (length fs) (seeded_calls u 0)"
    by (simp add: map_replicate_const)
  have total: "length (concat (replicate (length fs) (seeded_calls u 0))) = length fs * length u"
    by (simp add: length_concat sum_list_replicate length_seeded_calls)
  have vec: "jacobian_vec fs u log =
      (map (\<lambda>func. fst (gradient_vec func u [])) fs,
       log @ concat (replicate (length fs) (seeded_calls u 0)))"
    by (simp add: jacobian_vec_def jacobian_vec_loop_eq calls)
  have entry: "fst (gradient_vec (fs ! i) u []) ! j = dual ((fs ! i) (seeded_input u j))"
    if "j < length u" for i j
    using that by (simp add: gradient_vec_eq length_seeded_calls seeded_calls_nth)
  let ?jac = "rows_from fs u 0 (mat_create (length fs) (length u) garbage)"
  have row: "mat_row ?jac i = fst (gradient_vec (fs ! i) u [])" if "i < length fs" for i
    using that
    by (intro nth_equalityI)
      (simp_all add: mat_row_def rows_from_def mat_create_def gradient_vec_eq
        length_seeded_calls seeded_calls_nth)
  have eig: "gradient_eigen func u [] = Inr (fst (gradient_vec func u []), seeded_calls u 0)" for func
    by (simp add: gradient_eigen_eq gradient_vec_eq)
  have "jacobian_eigen fs u garbage log =
      Inr (?jac, log @ concat (replicate (length fs) (seeded_calls u 0))) \<and>
      nrows ?jac = length fs \<and> ncols ?jac = length u \<and>
      (\<forall>i<length fs. gradient_eigen (fs ! i) u [] = Inr (mat_row ?jac i, seeded_calls u 0) \<and>
         mat_row ?jac i = fst (gradient_vec (fs ! i) u [])) \<and>
      (\<forall>i<length fs. \<forall>j<length u. coeff ?jac i j = dual ((fs ! i) (seeded_input u j)))"
    by (simp add: jacobian_eigen_eq row eig) (simp add: rows_from_def mat_create_def)
  then show ?thesis
    using vec entry total by (simp add: seeded_calls_0 [symmetric])
qed

theorem jacobian_multi_rows_witness:
  "(0::nat) < length [product_fn] \<and> (0::nat) < length [two_d, three_d] \<and>
   (1::nat) < length [two_d, three_d] \<and>
   fst (jacobian_vec [product_fn] [two_d, three_d] []) ! 0 ! 0 = three_d \<and>
   fst (jacobian_vec [product_fn] [two_d, three_d] []) ! 0 ! 1 = two_d \<and>
   length (snd (jacobian_vec [product_fn] [two_d, three_d] [])) = 2 \<and>
   (\<exists>jac log'. jacobian_eigen [product_fn] [two_d, three_d] zero_garbage [] = Inr (jac, log') \<and>
      coeff jac 0 0 = three_d \<and> coeff jac 0 1 = two_d \<and> length log' = 2)"
  using jacobian_multi_rows [of "[product_fn]" "[two_d, three_d]" "[]" zero_garbage]
  by (auto simp: product_fn_seeded_0 product_fn_seeded_1)

text \<open>
  Claim C2: for a function \<open>f\<close> of output arity \<open>m\<close>, both single-function \<open>jacobian\<close>
  overloads invoke \<open>f\<close> exactly \<open>length u\<close> times, on the seeded inputs in index order
  and whatever \<open>m\<close> is, and return an \<open>m\<close> by \<open>length u\<close> matrix whose entry \<open>(j, i)\<close> is
  the dual component of output \<open>j\<close> of \<open>f\<close> at the input seeded at \<open>i\<close>. The fixed-size
  overload is at \<open>InputSize = length u\<close>, as its argument type has it.
\<close>

theorem jacobian_single_columns:
  assumes "\<forall>v. length (f v) = m"
  shows "(\<exists>jac. jacobian_dynamic m f u garbage log =
             Inr (jac, log @ map (seeded_input u) [0..<length u]) \<and>
           nrows jac = m \<and> ncols jac = length u \<and>
           (\<forall>j<m. \<forall>i<length u. coeff jac j i = dual (f (seeded_input u i) ! j))) \<and>
         (\<exists>jac. jacobian_fixed m (length u) f u garbage log =
             Inr (jac, log @ map (seeded_input u) [0..<length u]) \<and>
           nrows jac = m \<and> ncols jac = length u \<and>
           (\<forall>j<m. \<forall>i<length u. coeff jac j i = dual (f (seeded_input u i) ! j))) \<and>
         length (log @ map (seeded_input u) [0..<length u]) = length log + length u"
proof -
  let ?jac = "columns_from m f u 0 (mat_create m (length u) garbage)"
  from assms have arity: "\<forall>k<length u. m \<le> length (f (seeded_input u k))" by simp
  have props: "nrows ?jac = m \<and> ncols ?jac = length u \<and>
      (\<forall>j<m. \<forall>i<length u. coeff ?jac j i = dual (f (seeded_input u i) ! j))"
    by (simp add: columns_from_def mat_create_def)
  have "jacobian_dynamic m f u garbage log = Inr (?jac, log @ map (seeded_input u) [0..<length u])"
    using jacobian_dynamic_ok [OF arity] by (simp add: seeded_calls_0)
  moreover have "jacobian_fixed m (length u) f u garbage log =
      Inr (?jac, log @ map (seeded_input u) [0..<length u])"
    using jacobian_fixed_ok [OF refl arity] by (simp add: seeded_calls_0)
  ultimately show ?thesis using props by simp
qed

lemma pair_fn_arity: "\<forall>v. length (pair_fn v) = 2"
  by (simp add: pair_fn_def)

lemma pair_fn_seeded:
  "pair_fn (seeded_input [two_d] 0) =
     [\<lparr>primal = four_d, dual = four_d\<rparr>, \<lparr>primal = two_d, dual = one_d\<rparr>]"
  by (simp add: pair_fn_def seeded_input_def op_times_product_rule fmul_2_2 fmul_2_1 fmul_1_2 fadd_2_2)

theorem jacobian_single_columns_witness:
  "(\<forall>v. length (pair_fn v) = 2) \<and> (0::nat) < 2 \<and> (1::nat) < 2 \<and> (0::nat) < length [two_d] \<and>
   (\<exists>jac. jacobian_dynamic 2 pair_fn [two_d] zero_garbage [] =
       Inr (jac, [[\<lparr>primal = two_d, dual = one_d\<rparr>]]) \<and>
     nrows jac = 2 \<and> ncols jac = 1 \<and> coeff jac 0 0 = four_d \<and> coeff jac 1 0 = one_d)"
  using jacobian_single_columns [OF pair_fn_arity, of "[two_d]" zero_garbage "[]"] pair_fn_arity
  by (auto simp: pair_fn_seeded) (simp add: seeded_input_def)

text \<open>
  Claim C10: in every seeded loop, iteration \<open>k\<close> invokes the function on the shared
  vector with dual component 1.0 at exactly entry \<open>k\<close> and 0.0 at every other entry (the
  state its first statement sets up), and after the loop all dual components are 0.0
  again; the primal components are the input throughout. The loops are those of the
  \<open>std::vector\<close> \<open>evaluate\<close>, of the Eigen \<open>evaluate\<close> and of the two vector-valued
  \<open>jacobian\<close> overloads, here for \<open>g\<close> of output arity \<open>m\<close>. Each is run from iteration
  \<open>i\<close> on, entered with all dual components 0.0: it calls the function on exactly the
  seeded inputs for \<open>i\<close>, ..., \<open>length u - 1\<close>, in order, and ends with that same vector,
  so no call sees the seed of another.
\<close>

theorem seed_vector_invariant:
  assumes "\<forall>v. length (g v) = m"
  shows "evaluate_vec_loop f i (lift_input u) evaluations log =
           (lift_input u, evaluations @ map f (map (seeded_input u) [i..<length u]),
            log @ map (seeded_input u) [i..<length u]) \<and>
         (length evaluations = length u \<longrightarrow>
            (\<exists>evaluations'. evaluate_eigen_loop f i (lift_input u) evaluations log =
               Inr (lift_input u, evaluations', log @ map (seeded_input u) [i..<length u]))) \<and>
         (\<exists>jac'. jacobian_loop m g (length u) i (lift_input u) (mat_create m (length u) garbage) log' =
               Inr (lift_input u, jac', log' @ map (seeded_input u) [i..<length u])) \<and>
         (\<forall>k<length u. \<forall>j<length u.
            dual (seeded_input u k ! j) = (if j = k then one_d else zero_d) \<and>
            primal (seeded_input u k ! j) = u ! j) \<and>
         (\<forall>j<length u. dual (lift_input u ! j) = zero_d \<and> primal (lift_input u ! j) = u ! j) \<and>
         one_d \<noteq> zero_d"
proof -
  have calls: "seeded_calls u i = map (seeded_input u) [i..<length u]"
    by (simp add: seeded_calls_def)
  have vec: "evaluate_vec_loop f i (lift_input u) evaluations log =
      (lift_input u, evaluations @ map f (map (seeded_input u) [i..<length u]),
       log @ map (seeded_input u) [i..<length u])"
    using evaluate_vec_loop_from [of f i u evaluations log] by (simp only: calls)
  have eig: "\<exists>evaluations'. evaluate_eigen_loop f i (lift_input u) evaluations log =
      Inr (lift_input u, evaluations', log @ map (seeded_input u) [i..<length u])"
    if "length evaluations = length u"
    using evaluate_eigen_loop_from [OF that, of f i log] by (simp add: calls)
  from assms have arity: "\<forall>k. i \<le> k \<and> k < length u \<longrightarrow> m \<le> length (g (seeded_input u k))"
    by simp
  have jac: "\<exists>jac'. jacobian_loop m g (length u) i (lift_input u) (mat_create m (length u) garbage) log' =
      Inr (lift_input u, jac', log' @ map (seeded_input u) [i..<length u])"
    using jacobian_loop_ok [of "mat_create m (length u) garbage" u m i g log', OF _ _ arity]
    by (simp add: calls mat_create_def)
  have seeds: "\<forall>k<length u. \<forall>j<length u.
      dual (seeded_input u k ! j) = (if j = k then one_d else zero_d) \<and>
      primal (seeded_input u k ! j) = u ! j"
    by (simp add: seeded_input_def)
  have zeros: "\<forall>j<length u. dual (lift_input u ! j) = zero_d \<and> primal (lift_input u ! j) = u ! j"
    by (simp add: lift_input_def)
  from vec eig jac seeds zeros one_neq_zero_d show ?thesis by blast
qed

theorem seed_vector_invariant_witness:
  "(\<forall>v. length (pair_fn v) = 2) \<and>
   length [default_dual, default_dual] = length [two_d, three_d] \<and>
   (0::nat) < length [two_d, three_d] \<and> (1::nat) < length [two_d, three_d] \<and>
   evaluate_vec_loop product_fn 0 (lift_input [two_d, three_d]) [] [] =
     (lift_input [two_d, three_d],
      [product_fn (seeded_input [two_d, three_d] 0), product_fn (seeded_input [two_d, three_d] 1)],
      [seeded_input [two_d, three_d] 0, seeded_input [two_d, three_d] 1]) \<and>
   (\<exists>evaluations'. evaluate_eigen_loop product_fn 0 (lift_input [two_d, three_d])
        [default_dual, default_dual] [] =
      Inr (lift_input [two_d, three_d], evaluations',
           [seeded_input [two_d, three_d] 0, seeded_input [two_d, three_d] 1])) \<and>
   (\<exists>jac'. jacobian_loop 2 pair_fn (length [two_d, three_d]) 0 (lift_input [two_d, three_d])
        (mat_create 2 (length [two_d, three_d]) zero_garbage) [] =
      Inr (lift_input [two_d, three_d], jac',
           [seeded_input [two_d, three_d] 0, seeded_input [two_d, three_d] 1])) \<and>
   dual (seeded_input [two_d, three_d] 1 ! 0) = zero_d \<and>
   dual (seeded_input [two_d, three_d] 1 ! 1) = one_d \<and>
   dual (lift_input [two_d, three_d] ! 1) = zero_d"
  using seed_vector_invariant [OF pair_fn_arity,
      of product_fn 0 "[two_d, three_d]" "[]" "[]" zero_garbage "[]"]
    seed_vector_invariant [OF pair_fn_arity,
      of product_fn 0 "[two_d, three_d]" "[default_dual, default_dual]" "[]" zero_garbage "[]"]
    pair_fn_arity
  by (simp add: upt_rec)

section \<open>Failures as NaN and infinity\<close>

lemma fmul_m1_m1: "fmul minus_one_d minus_one_d = one_d" by (simp add: fp_eval lits)

lemma atanh_dual_at_one:
  "primal a = one_d \<or> primal a = minus_one_d \<Longrightarrow> nan_or_inf (dual (atanh_dual L a))"
  by (auto simp: atanh_dual_def fmul_1_1 fmul_m1_m1 fsub_1_1 is_zero_zero_d fdiv_by_zero)

lemma log_dual_at_zero: "is_zero (primal a) \<Longrightarrow> nan_or_inf (dual (log_dual L a))"
  by (simp add: log_dual_def fdiv_by_zero)

lemma returns_Inr: "returns (Inr x)"
  by (simp add: returns_def)

lemma nan_is_nan_or_inf: "is_nan x \<Longrightarrow> nan_or_inf x"
  and inf_is_nan_or_inf: "is_inf x \<Longrightarrow> nan_or_inf x"
  by (simp_all add: nan_or_inf_def)

lemma fdiv_nan_right: "is_nan y \<Longrightarrow> is_nan (fdiv x y)"
  by (simp add: fdiv_def is_nan_d_nan)

lemma fmul_nan_left: "is_nan x \<Longrightarrow> is_nan (fmul x y)"
  by (simp add: fmul_def is_nan_d_nan)

lemma fdiv_nan_or_inf_left: "nan_or_inf x \<Longrightarrow> nan_or_inf (fdiv x y)"
  by (auto simp: fdiv_def nan_or_inf_def is_nan_d_nan is_inf_d_inf)

lemma div_assign_by_zero:
  assumes "is_zero (primal (s other))"
  shows "nan_or_inf (primal (div_assign this other s this)) \<and>
         nan_or_inf (dual (div_assign this other s this))"
proof (cases "this = other")
  case True
  let ?p = "primal (s this)"
  from assms True have "is_nan (fdiv ?p ?p)" by (simp add: fdiv_zero_zero)
  then have "is_nan (fmul (fdiv ?p ?p) (fdiv ?p ?p))" by (rule fmul_nan_left)
  then have "is_nan (fdiv x (fmul (fdiv ?p ?p) (fdiv ?p ?p)))" for x by (rule fdiv_nan_right)
  with True \<open>is_nan (fdiv ?p ?p)\<close> show ?thesis
    by (simp add: div_assign_aliased nan_is_nan_or_inf)
next
  case False
  with assms show ?thesis
    by (simp add: div_assign_distinct fdiv_by_zero fmul_zero_zero)
qed

lemma divide_scalar_by_zero:
  "is_zero c \<Longrightarrow> nan_or_inf (primal (divide_scalar a c)) \<and> nan_or_inf (dual (divide_scalar a c))"
  by (simp add: divide_scalar_rule fdiv_by_zero)

lemma fabs_one_cases: "fabs x = one_d \<Longrightarrow> x = one_d \<or> x = minus_one_d"
  by (cases x) (auto simp: fabs_def one_d_def minus_one_d_def)

lemma log_non_positive:
  assumes "annex_f L" and "is_zero p \<or> flt p zero_d"
  shows "nan_or_inf (c_log L p)"
  using assms by (auto simp: annex_f_def nan_or_inf_def is_inf_d_inf)

lemma log_family_non_positive:
  assumes "annex_f L" and "is_zero (primal a) \<or> flt (primal a) zero_d"
  shows "nan_or_inf (primal (log_dual L a)) \<and> nan_or_inf (primal (log2_dual L a)) \<and>
         nan_or_inf (primal (log10_dual L a)) \<and> nan_or_inf (primal (log_base L a base))"
  using log_non_positive [OF assms]
  by (simp add: log_dual_def log2_dual_def log10_dual_def log_base_def divide_scalar_rule
      fdiv_nan_or_inf_left)

lemma inverse_trig_outside:
  assumes "annex_f L" and "flt one_d (fabs (primal a))"
  shows "is_nan (primal (asin_dual L a)) \<and> is_nan (primal (acos_dual L a)) \<and>
         is_nan (primal (atanh_dual L a))"
  using assms by (simp add: annex_f_def asin_dual_def acos_dual_def atanh_dual_def)

lemma acosh_outside:
  assumes "annex_f L" and "flt (primal a) one_d"
  shows "is_nan (primal (acosh_dual L a))"
  using assms by (simp add: annex_f_def acosh_dual_def)

lemma atanh_pole:
  assumes "annex_f L" and "fabs (primal a) = one_d"
  shows "is_inf (primal (atanh_dual L a)) \<and> nan_or_inf (dual (atanh_dual L a))"
proof -
  from assms have "c_atanh L (primal a) = d_inf (dsign (primal a))"
    by (simp add: annex_f_def)
  then have "is_inf (primal (atanh_dual L a))"
    by (simp add: atanh_dual_def is_inf_d_inf)
  moreover from assms(2) have "nan_or_inf (dual (atanh_dual L a))"
    by (intro atanh_dual_at_one fabs_one_cases)
  ultimately show ?thesis by simp
qed

lemma not_flt_self: "\<not> flt x x"
  by (simp add: flt_def)

lemma flt_zero_not_zero: "flt x zero_d \<Longrightarrow> \<not> is_zero x"
  by (auto simp: flt_def fkey_def is_zero_def zero_d_def split: if_splits)

lemma annex_f_stub_libm: "annex_f stub_libm"
  by (auto simp: annex_f_def stub_libm_def is_nan_d_nan not_flt_self flt_zero_not_zero)

text \<open>
  Claim C7: no operation of the algebra, of the elementary functions or of the engine
  throws or aborts, and the failures of arithmetic and of domain come out as NaN or
  infinite components. The library is compiled against a C library with the values of
  Annex F, and the vector-valued \<open>jacobian\<close> is given a function of the output arity
  \<open>FunctionSize\<close>, as its documentation requires. Then: a division by a zero primal or a
  zero scalar gives NaN or infinite components, in \<open>operator/\<close>, in \<open>operator/=\<close>
  (whether or not the operands are one object) and in the scalar form; the logarithms
  of a zero or negative primal have a NaN or infinite primal, and \<open>log\<close> of a zero
  primal also an infinite or NaN dual; \<open>asin\<close>, \<open>acos\<close> and \<open>atanh\<close> of a primal of
  magnitude above 1, and \<open>acosh\<close> of a primal below 1, have a NaN primal; \<open>atanh\<close> of a
  primal 1.0 or -1.0 has an infinite primal and a NaN or infinite dual; and every entry
  point of the engine on Eigen vectors passes each of its index and size checks and
  returns. The operators and functions themselves have no error channel: each returns a
  DualNumber for every input.
\<close>

theorem failures_are_nan_or_inf:
  assumes "annex_f L" and "\<forall>v. length (g v) = m"
  shows "(is_zero (primal b) \<longrightarrow>
            nan_or_inf (primal (op_divide a b)) \<and> nan_or_inf (dual (op_divide a b))) \<and>
         (is_zero (primal (s other)) \<longrightarrow>
            nan_or_inf (primal (div_assign this other s this)) \<and>
            nan_or_inf (dual (div_assign this other s this))) \<and>
         (is_zero c \<longrightarrow>
            nan_or_inf (primal (divide_scalar a c)) \<and> nan_or_inf (dual (divide_scalar a c))) \<and>
         (is_zero (primal a) \<or> flt (primal a) zero_d \<longrightarrow>
            nan_or_inf (primal (log_dual L a)) \<and> nan_or_inf (primal (log2_dual L a)) \<and>
            nan_or_inf (primal (log10_dual L a)) \<and> nan_or_inf (primal (log_base L a base))) \<and>
         (is_zero (primal a) \<longrightarrow> nan_or_inf (dual (log_dual L a))) \<and>
         (flt one_d (fabs (primal a)) \<longrightarrow>
            is_nan (primal (asin_dual L a)) \<and> is_nan (primal (acos_dual L a)) \<and>
            is_nan (primal (atanh_dual L a))) \<and>
         (flt (primal a) one_d \<longrightarrow> is_nan (primal (acosh_dual L a))) \<and>
         (fabs (primal a) = one_d \<longrightarrow>
            is_inf (primal (atanh_dual L a)) \<and> nan_or_inf (dual (atanh_dual L a))) \<and>
         returns (evaluate_eigen f u log) \<and>
         returns (gradient_eigen f u log) \<and>
         returns (jacobian_eigen fs u garbage log) \<and>
         returns (jacobian_dynamic m g u garbage log') \<and>
         returns (jacobian_fixed m (length u) g u garbage log')"
proof -
  from assms(2) have arity: "\<forall>k<length u. m \<le> length (g (seeded_input u k))" by simp
  have engine: "returns (evaluate_eigen f u log) \<and> returns (gradient_eigen f u log) \<and>
      returns (jacobian_eigen fs u garbage log) \<and>
      returns (jacobian_dynamic m g u garbage log') \<and>
      returns (jacobian_fixed m (length u) g u garbage log')"
    by (simp add: evaluate_eigen_eq gradient_eigen_eq jacobian_eigen_eq
        jacobian_dynamic_ok [OF arity] jacobian_fixed_ok [OF refl arity] returns_Inr)
  show ?thesis
    using engine op_divide_by_zero [of b a] div_assign_by_zero [of s other this]
      divide_scalar_by_zero [of c a] log_family_non_positive [OF assms(1), of a base]
      log_dual_at_zero [of a L] inverse_trig_outside [OF assms(1), of a]
      acosh_outside [OF assms(1), of a] atanh_pole [OF assms(1), of a]
    by blast
qed

lemma flt_m1_0: "flt minus_one_d zero_d"
  and flt_m1_1: "flt minus_one_d one_d"
  and flt_1_abs_2: "flt one_d (fabs two_d)"
  and fabs_1: "fabs one_d = one_d"
  by (simp_all add: flt_def fkey_def fabs_def is_nan_def minus_one_d_def zero_d_def one_d_def
      two_d_def)

theorem failures_are_nan_or_inf_witness:
  "(\<forall>v. length (pair_fn v) = 2) \<and>
   is_zero (primal \<lparr>primal = zero_d, dual = one_d\<rparr>) \<and>
   nan_or_inf (primal (op_divide \<lparr>primal = one_d, dual = one_d\<rparr> \<lparr>primal = zero_d, dual = one_d\<rparr>)) \<and>
   nan_or_inf (dual (op_divide \<lparr>primal = one_d, dual = one_d\<rparr> \<lparr>primal = zero_d, dual = one_d\<rparr>)) \<and>
   is_zero zero_d \<and>
   nan_or_inf (primal (divide_scalar \<lparr>primal = one_d, dual = one_d\<rparr> zero_d)) \<and>
   nan_or_inf (dual (log_dual stub_libm \<lparr>primal = zero_d, dual = one_d\<rparr>)) \<and>
   flt (primal \<lparr>primal = minus_one_d, dual = one_d\<rparr>) zero_d \<and>
   nan_or_inf (primal (log_dual stub_libm \<lparr>primal = minus_one_d, dual = one_d\<rparr>)) \<and>
   nan_or_inf (primal (log2_dual stub_libm \<lparr>primal = minus_one_d, dual = one_d\<rparr>)) \<and>
   flt (primal \<lparr>primal = minus_one_d, dual = one_d\<rparr>) one_d \<and>
   is_nan (primal (acosh_dual stub_libm \<lparr>primal = minus_one_d, dual = one_d\<rparr>)) \<and>
   flt one_d (fabs (primal \<lparr>primal = two_d, dual = one_d\<rparr>)) \<and>
   is_nan (primal (asin_dual stub_libm \<lparr>primal = two_d, dual = one_d\<rparr>)) \<and>
   is_nan (primal (acos_dual stub_libm \<lparr>primal = two_d, dual = one_d\<rparr>)) \<and>
   is_nan (primal (atanh_dual stub_libm \<lparr>primal = two_d, dual = one_d\<rparr>)) \<and>
   fabs (primal \<lparr>primal = one_d, dual = one_d\<rparr>) = one_d \<and>
   is_inf (primal (atanh_dual stub_libm \<lparr>primal = one_d, dual = one_d\<rparr>)) \<and>
   nan_or_inf (dual (atanh_dual stub_libm \<lparr>primal = one_d, dual = one_d\<rparr>)) \<and>
   returns (evaluate_eigen product_fn [two_d, three_d] []) \<and>
   returns (jacobian_eigen [product_fn] [two_d, three_d] zero_garbage []) \<and>
   returns (jacobian_dynamic 2 pair_fn [two_d, three_d] zero_garbage []) \<and>
   returns (jacobian_fixed 2 (length [two_d, three_d]) pair_fn [two_d, three_d] zero_garbage [])"
proof -
  let ?z = "\<lparr>primal = zero_d, dual = one_d\<rparr>"
  let ?o = "\<lparr>primal = one_d, dual = one_d\<rparr>"
  let ?n = "\<lparr>primal = minus_one_d, dual = one_d\<rparr>"
  let ?t = "\<lparr>primal = two_d, dual = one_d\<rparr>"
  have z: "is_zero (primal ?z)" "is_zero zero_d" by (simp_all add: is_zero_zero_d)
  have n: "flt (primal ?n) zero_d" "flt (primal ?n) one_d" by (simp_all add: flt_m1_0 flt_m1_1)
  have t: "flt one_d (fabs (primal ?t))" by (simp add: flt_1_abs_2)
  have o: "fabs (primal ?o) = one_d" by (simp add: fabs_1)
  note inst = failures_are_nan_or_inf [OF annex_f_stub_libm pair_fn_arity]
  have g1: "nan_or_inf (primal (op_divide ?o ?z)) \<and> nan_or_inf (dual (op_divide ?o ?z)) \<and>
      nan_or_inf (primal (divide_scalar ?o zero_d)) \<and>
      is_inf (primal (atanh_dual stub_libm ?o)) \<and> nan_or_inf (dual (atanh_dual stub_libm ?o)) \<and>
      returns (evaluate_eigen product_fn [two_d, three_d] []) \<and>
      returns (jacobian_eigen [product_fn] [two_d, three_d] zero_garbage []) \<and>
      returns (jacobian_dynamic 2 pair_fn [two_d, three_d] zero_garbage []) \<and>
      returns (jacobian_fixed 2 (length [two_d, three_d]) pair_fn [two_d, three_d] zero_garbage [])"
    using inst [where b = "?z" and a = "?o" and s = "\<lambda>a. ?z" and other = 0 and this = 0
        and c = zero_d and base = zero_d and f = product_fn and u = "[two_d, three_d]"
        and log = "[]" and fs = "[product_fn]" and garbage = zero_garbage and log' = "[]"] z o by blast
  have g2: "nan_or_inf (dual (log_dual stub_libm ?z))"
    using inst [where b = "?z" and a = "?z" and s = "\<lambda>a. ?z" and other = 0 and this = 0
        and c = zero_d and base = zero_d and f = product_fn and u = "[two_d, three_d]"
        and log = "[]" and fs = "[product_fn]" and garbage = zero_garbage and log' = "[]"] z by blast
  have g3: "nan_or_inf (primal (log_dual stub_libm ?n)) \<and>
      nan_or_inf (primal (log2_dual stub_libm ?n)) \<and> is_nan (primal (acosh_dual stub_libm ?n))"
    using inst [where b = "?z" and a = "?n" and s = "\<lambda>a. ?z" and other = 0 and this = 0
        and c = zero_d and base = zero_d and f = product_fn and u = "[two_d, three_d]"
        and log = "[]" and fs = "[product_fn]" and garbage = zero_garbage and log' = "[]"] n by blast
  have g4: "is_nan (primal (asin_dual stub_libm ?t)) \<and> is_nan (primal (acos_dual stub_libm ?t)) \<and>
      is_nan (primal (atanh_dual stub_libm ?t))"
    using inst [where b = "?z" and a = "?t" and s = "\<lambda>a. ?z" and other = 0 and this = 0
        and c = zero_d and base = zero_d and f = product_fn and u = "[two_d, three_d]"
        and log = "[]" and fs = "[product_fn]" and garbage = zero_garbage and log' = "[]"] t by blast
  from g1 g2 g3 g4 z n t o pair_fn_arity show ?thesis by blast
qed

end
